theory Spec2Isabelle
  imports Complex_Main "HOL-Library.AList"
begin

section \<open>Numbers\<close>

text \<open>
  The program computes with Python and NumPy floats. Finite values are modelled as
  exact reals; rounding is not modelled. The non-finite results that the program's
  unguarded divisions produce under NumPy (no exception is raised there) are kept as
  values of their own: the two infinities and NaN. NaN is also what pandas stores in a
  row of a rolling statistic that does not have enough history yet.
\<close>

datatype fnum = Fin real | PInf | NInf | NaN

text \<open>Division of two finite values, as NumPy does it: \<open>x / 0\<close> is an infinity with the
  sign of \<open>x\<close>, and \<open>0 / 0\<close> is NaN.\<close>

definition fin_div :: "real \<Rightarrow> real \<Rightarrow> fnum" where
  "fin_div a b =
     (if b = 0 then (if a = 0 then NaN else if 0 < a then PInf else NInf)
      else Fin (a / b))"

fun fdiv :: "fnum \<Rightarrow> fnum \<Rightarrow> fnum" where
  "fdiv NaN _ = NaN"
| "fdiv _ NaN = NaN"
| "fdiv (Fin a) (Fin b) = fin_div a b"
| "fdiv (Fin a) PInf = Fin 0"
| "fdiv (Fin a) NInf = Fin 0"
| "fdiv PInf (Fin b) = (if 0 \<le> b then PInf else NInf)"
| "fdiv NInf (Fin b) = (if 0 \<le> b then NInf else PInf)"
| "fdiv _ _ = NaN"

fun fadd :: "fnum \<Rightarrow> fnum \<Rightarrow> fnum" where
  "fadd NaN _ = NaN"
| "fadd _ NaN = NaN"
| "fadd (Fin a) (Fin b) = Fin (a + b)"
| "fadd PInf NInf = NaN"
| "fadd NInf PInf = NaN"
| "fadd PInf _ = PInf"
| "fadd _ PInf = PInf"
| "fadd NInf _ = NInf"
| "fadd _ NInf = NInf"

fun fneg :: "fnum \<Rightarrow> fnum" where
  "fneg (Fin a) = Fin (- a)"
| "fneg PInf = NInf"
| "fneg NInf = PInf"
| "fneg NaN = NaN"

definition fsub :: "fnum \<Rightarrow> fnum \<Rightarrow> fnum" where
  "fsub x y = fadd x (fneg y)"

fun fmul :: "fnum \<Rightarrow> fnum \<Rightarrow> fnum" where
  "fmul NaN _ = NaN"
| "fmul _ NaN = NaN"
| "fmul (Fin a) (Fin b) = Fin (a * b)"
| "fmul (Fin a) PInf = (if a = 0 then NaN else if 0 < a then PInf else NInf)"
| "fmul (Fin a) NInf = (if a = 0 then NaN else if 0 < a then NInf else PInf)"
| "fmul PInf (Fin b) = (if b = 0 then NaN else if 0 < b then PInf else NInf)"
| "fmul NInf (Fin b) = (if b = 0 then NaN else if 0 < b then NInf else PInf)"
| "fmul PInf PInf = PInf"
| "fmul NInf NInf = PInf"
| "fmul _ _ = NInf"

text \<open>\<open>x > y\<close> on floats: false as soon as one side is NaN.\<close>

fun fgt :: "fnum \<Rightarrow> fnum \<Rightarrow> bool" where
  "fgt NaN _ = False"
| "fgt _ NaN = False"
| "fgt (Fin a) (Fin b) = (b < a)"
| "fgt PInf PInf = False"
| "fgt PInf _ = True"
| "fgt _ PInf = False"
| "fgt NInf _ = False"
| "fgt (Fin a) NInf = True"


fun fsqrt :: "fnum \<Rightarrow> fnum" where
  "fsqrt (Fin a) = (if a < 0 then NaN else Fin (sqrt a))"
| "fsqrt PInf = PInf"
| "fsqrt NInf = NaN"
| "fsqrt NaN = NaN"

text \<open>\<open>np.mean\<close> and \<open>np.std\<close> (population standard deviation) of a list; both are
  NaN on the empty list.\<close>

definition np_mean :: "fnum list \<Rightarrow> fnum" where
  "np_mean xs = fdiv (foldl fadd (Fin 0) xs) (Fin (real (length xs)))"

definition np_std :: "fnum list \<Rightarrow> fnum" where
  "np_std xs =
     (let m = np_mean xs
      in fsqrt (np_mean (map (\<lambda>x. fmul (fsub x m) (fsub x m)) xs)))"


section \<open>The backtest ledger (utils/backtest.py)\<close>

record bar =
  timestamp :: nat
  b_open :: real
  high :: real
  low :: real
  close :: real
  volume :: real

text \<open>A signal is a dictionary in the source; every strategy of the repository fills
  the four keys below, which are the ones the aggregator, the risk manager and the
  backtest engine read.\<close>

record signal =
  s_strategy :: string
  s_symbol :: string
  s_side :: string
  s_confidence :: real

record position =
  quantity :: real
  avg_price :: real
  entry_time :: nat

record trade =
  t_timestamp :: nat
  t_symbol :: string
  t_side :: string
  t_quantity :: real
  t_price :: real
  t_profit :: real
  t_strategy :: string

record equity_point =
  e_timestamp :: nat
  equity :: real
  e_capital :: real

text \<open>\<open>BacktestEngine\<close>: \<open>positions\<close> is a Python dict, kept here as an association
  list in insertion order (a new key goes to the end, an update keeps the key's place).\<close>

record engine =
  initial_capital :: real
  capital :: real
  positions :: "(string \<times> position) list"
  trades :: "trade list"
  equity_curve :: "equity_point list"

definition new_engine :: "real \<Rightarrow> engine" where
  "new_engine c = \<lparr>initial_capital = c, capital = c, positions = [], trades = [],
     equity_curve = []\<rparr>"

text \<open>\<open>_execute_backtest_trade\<close>. The size of every fill is 2% of the current cash,
  converted to units at the bar's close. A bar with close 0 is outside the model
  (the source divides by the close).\<close>

definition execute_backtest_trade :: "engine \<Rightarrow> signal \<Rightarrow> bar \<Rightarrow> engine" where
  "execute_backtest_trade s sg current_bar =
     (let symbol = s_symbol sg;
          side = s_side sg;
          current_price = close current_bar;
          position_size = capital s * 0.02 / current_price
      in if side = ''buy'' then
           (let cost = position_size * current_price
            in if cost \<le> capital s then
                 (case map_of (positions s) symbol of
                    Some p \<Rightarrow>
                      (let old_qty = quantity p;
                           old_price = avg_price p;
                           new_qty = old_qty + position_size;
                           new_avg_price =
                             ((old_qty * old_price) + (position_size * current_price)) / new_qty
                       in s\<lparr>capital := capital s - cost,
                            positions := AList.update symbol
                              (p\<lparr>quantity := new_qty, avg_price := new_avg_price\<rparr>)
                              (positions s)\<rparr>)
                  | None \<Rightarrow>
                      s\<lparr>capital := capital s - cost,
                        positions := AList.update symbol
                          \<lparr>quantity = position_size, avg_price = current_price,
                           entry_time = timestamp current_bar\<rparr>
                          (positions s)\<rparr>)
               else s)
         else if side = ''sell'' then
           (case map_of (positions s) symbol of
              None \<Rightarrow> s
            | Some p \<Rightarrow>
                (let sell_quantity = min position_size (quantity p);
                     proceeds = sell_quantity * current_price;
                     profit = (current_price - avg_price p) * sell_quantity;
                     p' = p\<lparr>quantity := quantity p - sell_quantity\<rparr>;
                     tr = \<lparr>t_timestamp = timestamp current_bar, t_symbol = symbol,
                           t_side = side, t_quantity = sell_quantity,
                           t_price = current_price, t_profit = profit,
                           t_strategy = s_strategy sg\<rparr>
                 in s\<lparr>capital := capital s + proceeds,
                      positions :=
                        (if quantity p' \<le> 0.001 then AList.delete symbol (positions s)
                         else AList.update symbol p' (positions s)),
                      trades := trades s @ [tr]\<rparr>))
         else s)"

text \<open>\<open>_calculate_current_equity\<close>: the loop adds the value of every open position,
  all priced at the current bar's close.\<close>

definition calculate_current_equity :: "engine \<Rightarrow> bar \<Rightarrow> real" where
  "calculate_current_equity s current_bar =
     foldl (\<lambda>eq (symbol, p). eq + quantity p * close current_bar) (capital s) (positions s)"

section \<open>The signal aggregator (strategies/strategy_manager.py)\<close>

text \<open>The grouping loop of \<open>_filter_and_prioritize_signals\<close>: a dict from symbol to
  the list of its signals, in input order; the dict keeps its keys in the order of their
  first occurrence.\<close>

definition add_to_group :: "(string \<times> signal list) list \<Rightarrow> signal \<Rightarrow> (string \<times> signal list) list" where
  "add_to_group signals_by_symbol sg =
     (case map_of signals_by_symbol (s_symbol sg) of
        None \<Rightarrow> AList.update (s_symbol sg) [sg] signals_by_symbol
      | Some g \<Rightarrow> AList.update (s_symbol sg) (g @ [sg]) signals_by_symbol)"

definition group_by_symbol :: "signal list \<Rightarrow> (string \<times> signal list) list" where
  "group_by_symbol signals = foldl add_to_group [] signals"

text \<open>\<open>_signals_are_coherent\<close>: \<open>len(set(sides)) == 1\<close>.\<close>

definition signals_are_coherent :: "signal list \<Rightarrow> bool" where
  "signals_are_coherent sgs =
     (if length sgs \<le> 1 then True else length (remdups (map s_side sgs)) = 1)"

text \<open>\<open>symbol_signals.sort(key=lambda x: x['confidence'], reverse=True)\<close>: Python's sort
  is stable, also with \<open>reverse=True\<close>, so equal confidences keep their input order. That
  is the stable insertion sort on the negated key.\<close>

definition sort_by_confidence :: "signal list \<Rightarrow> signal list" where
  "sort_by_confidence sgs = sort_key (\<lambda>x. - s_confidence x) sgs"

definition best_of_group :: "signal list \<Rightarrow> signal list" where
  "best_of_group symbol_signals =
     (let sorted_signals = sort_by_confidence symbol_signals
      in if signals_are_coherent sorted_signals then [hd sorted_signals] else [])"

definition filter_and_prioritize_signals :: "signal list \<Rightarrow> signal list" where
  "filter_and_prioritize_signals signals =
     (if signals = [] then []
      else concat (map (\<lambda>(symbol, symbol_signals). best_of_group symbol_signals)
                       (group_by_symbol signals)))"

text \<open>\<open>analyze_market\<close>: the enabled strategies are run on the data and their signals
  collected, then filtered. A strategy is a parameter here: a function of its own state
  and the bars seen so far, returning its signals and its new state (a strategy that
  raises contributes no signal).\<close>

type_synonym 'st strategy = "'st \<Rightarrow> bar list \<Rightarrow> signal list \<times> 'st"

definition analyze_market :: "'st strategy \<Rightarrow> 'st \<Rightarrow> bar list \<Rightarrow> signal list \<times> 'st" where
  "analyze_market strategy st current_data =
     (case strategy st current_data of
        (all_signals, st') \<Rightarrow> (filter_and_prioritize_signals all_signals, st'))"

section \<open>The backtest run (utils/backtest.py)\<close>

datatype py_error = IndexError

datatype backtest_error =
    NoDataForPeriod  \<comment> \<open>\<open>{'error': 'Aucune donnee pour la periode specifiee'}\<close>\<close>
  | NoTradeExecuted  \<comment> \<open>\<open>{'error': 'Aucun trade execute'}\<close>\<close>

record metrics =
  total_trades :: nat
  winning_trades :: nat
  losing_trades :: nat
  m_win_rate :: real
  total_return :: fnum
  profit_factor :: fnum
  sharpe_ratio :: fnum
  max_drawdown :: fnum
  avg_profit :: real
  max_profit :: real
  max_loss :: real
  m_initial_capital :: real
  final_equity :: real
  m_equity_curve :: "equity_point list"
  m_trades :: "trade list"

datatype backtest_result = Failed backtest_error | Report metrics

text \<open>The period returns of the Sharpe ratio: \<open>(e[i] - e[i-1]) / e[i-1]\<close> for
  \<open>i = 1 .. len - 1\<close>.\<close>

fun period_returns :: "real list \<Rightarrow> fnum list" where
  "period_returns (a # b # rest) = fin_div (b - a) a # period_returns (b # rest)"
| "period_returns _ = []"

text \<open>One round of the drawdown loop on the pair (peak, max_drawdown).\<close>

definition drawdown_step :: "real \<times> fnum \<Rightarrow> real \<Rightarrow> real \<times> fnum" where
  "drawdown_step pm v =
     (let peak = (if fst pm < v then v else fst pm);
          drawdown = fin_div (peak - v) peak
      in (peak, if fgt drawdown (snd pm) then drawdown else snd pm))"

text \<open>\<open>_calculate_performance_metrics\<close>. With no trade the explicit error record is
  returned before anything is computed. Otherwise the last equity point is read, which
  raises IndexError on an empty curve. The divisions follow NumPy (the ledger's values are
  NumPy floats once a fill has happened): no exception, an infinity or NaN instead. An
  equity point recorded before the first fill is a plain Python number; a division by such
  a point (possible only with an initial capital of 0) raises in the source and is outside
  the model.\<close>

definition calculate_performance_metrics :: "engine \<Rightarrow> py_error + backtest_result" where
  "calculate_performance_metrics s =
     (if trades s = [] then Inr (Failed NoTradeExecuted)
      else if equity_curve s = [] then Inl IndexError
      else
        (let profits = map t_profit (trades s);
             last_equity = equity (last (equity_curve s));
             winning = filter (\<lambda>p. 0 < p) profits;
             gross_profit = sum_list winning;
             gross_loss = \<bar>sum_list (filter (\<lambda>p. p < 0) profits)\<bar>;
             equity_values = map equity (equity_curve s);
             returns = period_returns equity_values
         in Inr (Report
           \<lparr>total_trades = length (trades s),
            winning_trades = length winning,
            losing_trades = length profits - length winning,
            m_win_rate = real (length winning) / real (length profits),
            total_return = fin_div (last_equity - initial_capital s) (initial_capital s),
            profit_factor = (if 0 < gross_loss then Fin (gross_profit / gross_loss) else PInf),
            sharpe_ratio =
              (if fgt (np_std returns) (Fin 0) then fdiv (np_mean returns) (np_std returns)
               else Fin 0),
            max_drawdown = snd (foldl drawdown_step (hd equity_values, Fin 0) equity_values),
            avg_profit = sum_list profits / real (length profits),
            max_profit = Max (set profits),
            max_loss = Min (set profits),
            m_initial_capital = initial_capital s,
            final_equity = last_equity,
            m_equity_curve = equity_curve s,
            m_trades = trades s\<rparr>)))"

text \<open>One round of the loop of \<open>run_backtest\<close>, for bar index \<open>i\<close>. A prefix of fewer
  than 50 bars is skipped by \<open>continue\<close>: no analysis, no fill, no equity point.\<close>

definition backtest_step ::
  "'st strategy \<Rightarrow> bar list \<Rightarrow> 'st \<times> engine \<Rightarrow> nat \<Rightarrow> 'st \<times> engine" where
  "backtest_step strategy test_data acc i =
     (let current_data = take (i + 1) test_data
      in if length current_data < 50 then acc
         else
           (case analyze_market strategy (fst acc) current_data of
              (signals, st') \<Rightarrow>
                (let s1 = foldl (\<lambda>s sg. execute_backtest_trade s sg (last current_data))
                            (snd acc) signals;
                     current_equity = calculate_current_equity s1 (last current_data)
                 in (st', s1\<lparr>equity_curve := equity_curve s1 @
                        [\<lparr>e_timestamp = timestamp (last current_data),
                          equity = current_equity,
                          e_capital = capital s1\<rparr>]\<rparr>))))"

definition backtest_loop :: "'st strategy \<Rightarrow> bar list \<Rightarrow> 'st \<times> engine \<Rightarrow> 'st \<times> engine" where
  "backtest_loop strategy test_data acc =
     foldl (backtest_step strategy test_data) acc [0..<length test_data]"

text \<open>\<open>run_backtest\<close>, on the data already restricted to the period.\<close>

definition run_backtest ::
  "'st strategy \<Rightarrow> 'st \<Rightarrow> engine \<Rightarrow> bar list \<Rightarrow> py_error + backtest_result" where
  "run_backtest strategy st s test_data =
     (if length test_data = 0 then Inr (Failed NoDataForPeriod)
      else calculate_performance_metrics (snd (backtest_loop strategy test_data (st, s))))"

section \<open>Position sizing (utils/risk_management.py)\<close>

text \<open>An entry of \<open>RiskManager.trade_history\<close>: the strategy is read with
  \<open>t.get('strategy')\<close> and may be absent, the profit with \<open>t['profit']\<close>.\<close>

record risk_trade =
  rt_strategy :: "string option"
  rt_profit :: real

text \<open>The configuration dict, as far as sizing reads it:
  \<open>config.get('default_risk_per_trade', 0.02)\<close>.\<close>

record risk_config =
  default_risk_per_trade :: "real option"

text \<open>\<open>np.mean\<close> of a non-empty list of finite values.\<close>

definition mean :: "real list \<Rightarrow> real" where
  "mean xs = sum_list xs / real (length xs)"

definition percentage_position_size :: "risk_config \<Rightarrow> signal \<Rightarrow> real \<Rightarrow> real" where
  "percentage_position_size cfg sg account_balance =
     (let risk_per_trade = (case default_risk_per_trade cfg of None \<Rightarrow> 0.02 | Some r \<Rightarrow> r)
      in account_balance * risk_per_trade)"

text \<open>\<open>_get_strategy_stats\<close>: (win_rate, avg_win, avg_loss) of the trades recorded for
  the strategy, and the defaults (0.5, 1, 1) when there is none.\<close>

definition get_strategy_stats :: "risk_trade list \<Rightarrow> string \<Rightarrow> real \<times> real \<times> real" where
  "get_strategy_stats history strategy_name =
     (let strategy_trades = filter (\<lambda>t. rt_strategy t = Some strategy_name) history
      in if strategy_trades = [] then (0.5, 1, 1)
         else
           (let wins = filter (\<lambda>t. 0 < rt_profit t) strategy_trades;
                losses = filter (\<lambda>t. rt_profit t < 0) strategy_trades;
                win_rate = real (length wins) / real (length strategy_trades);
                avg_win = (if wins \<noteq> [] then mean (map rt_profit wins) else 1);
                avg_loss = (if losses \<noteq> [] then \<bar>mean (map rt_profit losses)\<bar> else 1)
            in (win_rate, avg_win, avg_loss)))"

text \<open>The Kelly formula of \<open>_kelly_position_size\<close>, before it is limited:
  \<open>f = (b p - q) / b\<close> with \<open>b = avg_win / avg_loss\<close>, \<open>p = win_rate\<close>, \<open>q = 1 - p\<close>.\<close>

definition kelly_formula :: "real \<Rightarrow> real \<Rightarrow> real \<Rightarrow> real" where
  "kelly_formula win_rate avg_win avg_loss =
     (let b = avg_win / avg_loss; p = win_rate; q = 1 - win_rate
      in (b * p - q) / b)"

text \<open>\<open>_kelly_position_size\<close>; \<open>signal.get('strategy', 'unknown')\<close> is the signal's
  strategy, a key every signal carries.\<close>

definition kelly_position_size :: "risk_config \<Rightarrow> risk_trade list \<Rightarrow> signal \<Rightarrow> real \<Rightarrow> real" where
  "kelly_position_size cfg history sg account_balance =
     (case get_strategy_stats history (s_strategy sg) of
        (win_rate, avg_win, avg_loss) \<Rightarrow>
          if win_rate = 0 \<or> avg_loss = 0 then percentage_position_size cfg sg account_balance
          else
            (let kelly_fraction = kelly_formula win_rate avg_win avg_loss;
                 kelly_fraction = max 0 (min 0.25 kelly_fraction)
             in account_balance * kelly_fraction))"

section \<open>Paper orders (utils/portfolio.py)\<close>

record pf_position =
  pf_quantity :: real
  pf_avg_price :: real
  pf_side :: string
  pf_entry_time :: nat

record pf_trade =
  pt_timestamp :: nat
  pt_symbol :: string
  pt_side :: string
  pt_quantity :: real
  pt_price :: real
  pt_amount :: real
  pt_profit :: real

text \<open>\<open>PortfolioManager\<close>, as far as a paper order reads and writes it. Writing the
  snapshot file after an executed order is not modelled.\<close>

record portfolio =
  balance :: real
  pf_positions :: "(string \<times> pf_position) list"
  trade_history :: "pf_trade list"

datatype order_error =
    InsufficientBalance  \<comment> \<open>\<open>'Solde insuffisant'\<close>\<close>
  | NoPositionToSell     \<comment> \<open>\<open>'Aucune position a vendre'\<close>\<close>

text \<open>The record returned for an executed order; \<open>order_id\<close> is \<open>paper_\<close> followed by
  the number kept here.\<close>

record order_fill =
  of_order_no :: nat
  of_symbol :: string
  of_side :: string
  of_quantity :: real
  of_price :: real
  of_entry_price :: real
  of_profit :: real

text \<open>\<open>{'success': False, 'error': ...}\<close> or \<open>{'success': True, ...}\<close>.\<close>

datatype order_result = Rejected order_error | Executed order_fill

definition get_current_price :: "string \<Rightarrow> real" where
  "get_current_price symbol =
     (case map_of [(''BTCUSDT'', 45000), (''ETHUSDT'', 3000), (''ADAUSDT'', 0.5),
                   (''DOTUSDT'', 8), (''LINKUSDT'', 15)] symbol of
        Some p \<Rightarrow> p
      | None \<Rightarrow> 100)"

text \<open>\<open>_place_paper_order\<close>; \<open>now\<close> stands for the clock. \<open>price or default\<close> takes the
  default when the price is absent or zero. Every side other than \<open>'buy'\<close> goes to the
  sell branch; the recorded profit is the realised one only for \<open>'sell'\<close>
  (\<open>profit if side == 'sell' else 0\<close>).\<close>

definition place_paper_order ::
  "portfolio \<Rightarrow> nat \<Rightarrow> string \<Rightarrow> string \<Rightarrow> real \<Rightarrow> real option \<Rightarrow> string
     \<Rightarrow> portfolio \<times> order_result" where
  "place_paper_order pf now symbol side amount price order_type =
     (let current_price =
            (case price of
               Some p \<Rightarrow> if p \<noteq> 0 then p else get_current_price symbol
             | None \<Rightarrow> get_current_price symbol)
      in if side = ''buy'' then
           (let cost = amount;
                qty = cost / current_price
            in if balance pf < cost then (pf, Rejected InsufficientBalance)
               else
                 (let positions' =
                        (case map_of (pf_positions pf) symbol of
                           Some p \<Rightarrow>
                             (let old_qty = pf_quantity p;
                                  old_price = pf_avg_price p;
                                  new_qty = old_qty + qty;
                                  new_avg_price =
                                    ((old_qty * old_price) + (qty * current_price)) / new_qty
                              in AList.update symbol
                                   (p\<lparr>pf_quantity := new_qty, pf_avg_price := new_avg_price\<rparr>)
                                   (pf_positions pf))
                         | None \<Rightarrow>
                             AList.update symbol
                               \<lparr>pf_quantity = qty, pf_avg_price = current_price,
                                pf_side = ''long'', pf_entry_time = now\<rparr>
                               (pf_positions pf));
                      trade_record =
                        \<lparr>pt_timestamp = now, pt_symbol = symbol, pt_side = side,
                         pt_quantity = qty, pt_price = current_price, pt_amount = amount,
                         pt_profit = 0\<rparr>;
                      history' = trade_history pf @ [trade_record]
                  in (\<lparr>balance = balance pf - cost, pf_positions = positions',
                       trade_history = history'\<rparr>,
                      Executed
                        \<lparr>of_order_no = length history', of_symbol = symbol, of_side = side,
                         of_quantity = qty, of_price = current_price,
                         of_entry_price = current_price, of_profit = 0\<rparr>)))
         else
           (case map_of (pf_positions pf) symbol of
              None \<Rightarrow> (pf, Rejected NoPositionToSell)
            | Some p \<Rightarrow>
                (let sell_quantity = min (amount / current_price) (pf_quantity p);
                     proceeds = sell_quantity * current_price;
                     profit = (current_price - pf_avg_price p) * sell_quantity;
                     p' = p\<lparr>pf_quantity := pf_quantity p - sell_quantity\<rparr>;
                     positions' =
                       (if pf_quantity p' \<le> 0.001 then AList.delete symbol (pf_positions pf)
                        else AList.update symbol p' (pf_positions pf));
                     trade_record =
                       \<lparr>pt_timestamp = now, pt_symbol = symbol, pt_side = side,
                        pt_quantity = sell_quantity, pt_price = current_price,
                        pt_amount = amount,
                        pt_profit = (if side = ''sell'' then profit else 0)\<rparr>;
                     history' = trade_history pf @ [trade_record]
                 in (\<lparr>balance = balance pf + proceeds, pf_positions = positions',
                      trade_history = history'\<rparr>,
                     Executed
                       \<lparr>of_order_no = length history', of_symbol = symbol, of_side = side,
                        of_quantity = sell_quantity, of_price = current_price,
                        of_entry_price = current_price,
                        of_profit = (if side = ''sell'' then profit else 0)\<rparr>))))"

section \<open>Indicators (strategies/base_strategy.py)\<close>

text \<open>
  \<open>calculate_indicators\<close> is written with pandas. The operations it uses are modelled on
  columns whose input values (close, volume) are finite; a row that pandas leaves
  undefined holds NaN. Signed zeros are not distinguished (the value of the RSI does not
  depend on the sign of a zero average loss).
\<close>

text \<open>\<open>Series.diff()\<close>: the first row has no predecessor and is NaN.\<close>

definition diff :: "real list \<Rightarrow> fnum list" where
  "diff xs = (case xs of [] \<Rightarrow> [] | x # rest \<Rightarrow> NaN # map (\<lambda>(a, b). Fin (b - a)) (zip xs rest))"

text \<open>\<open>s.where(cond, 0)\<close>: the value where the condition holds, 0 elsewhere (a
  comparison with NaN does not hold).\<close>

definition where_or_zero :: "(fnum \<Rightarrow> bool) \<Rightarrow> fnum list \<Rightarrow> fnum list" where
  "where_or_zero cond xs = map (\<lambda>x. if cond x then x else Fin 0) xs"

text \<open>\<open>s.rolling(window=w)\<close> followed by a statistic: \<open>min_periods\<close> defaults to the
  window, so the first \<open>w - 1\<close> rows are NaN; from then on the statistic of the last \<open>w\<close>
  values (NaN if one of them is NaN).\<close>

definition rolling :: "nat \<Rightarrow> (fnum list \<Rightarrow> fnum) \<Rightarrow> fnum list \<Rightarrow> fnum list" where
  "rolling window stat xs =
     map (\<lambda>i. if i + 1 < window then NaN
               else stat (take window (drop (i + 1 - window) xs)))
         [0..<length xs]"

text \<open>The sample standard deviation (\<open>ddof = 1\<close>) of \<open>rolling(...).std()\<close>.\<close>

definition sample_std :: "fnum list \<Rightarrow> fnum" where
  "sample_std xs =
     (let m = np_mean xs
      in fsqrt (fdiv (foldl fadd (Fin 0) (map (\<lambda>x. fmul (fsub x m) (fsub x m)) xs))
                     (Fin (real (length xs) - 1))))"

text \<open>\<open>s.ewm(span=n).mean()\<close> with the defaults \<open>adjust=True\<close> and \<open>min_periods=0\<close>, on
  finite values: every row is defined, the first is the first value, and each later row
  is the weighted average of the values so far with weights \<open>(1 - alpha)^k\<close>,
  \<open>alpha = 2 / (n + 1)\<close>, computed by the running update pandas uses.\<close>

fun ewm_loop :: "real \<Rightarrow> real \<Rightarrow> real \<Rightarrow> real list \<Rightarrow> real list" where
  "ewm_loop alpha weighted_avg old_wt [] = []"
| "ewm_loop alpha weighted_avg old_wt (x # xs) =
     (let old_wt = old_wt * (1 - alpha);
          weighted_avg = ((old_wt * weighted_avg) + x) / (old_wt + 1)
      in weighted_avg # ewm_loop alpha weighted_avg (old_wt + 1) xs)"

definition ewm_mean :: "nat \<Rightarrow> real list \<Rightarrow> real list" where
  "ewm_mean n xs =
     (case xs of [] \<Rightarrow> [] | x # rest \<Rightarrow> x # ewm_loop (2 / (real n + 1)) x 1 rest)"

text \<open>The two averaged series of the RSI: \<open>gain\<close> and \<open>loss\<close>.\<close>

definition avg_gain :: "real list \<Rightarrow> fnum list" where
  "avg_gain closes = rolling 14 np_mean (where_or_zero (\<lambda>d. fgt d (Fin 0)) (diff closes))"

definition avg_loss :: "real list \<Rightarrow> fnum list" where
  "avg_loss closes =
     rolling 14 np_mean (map fneg (where_or_zero (\<lambda>d. fgt (Fin 0) d) (diff closes)))"

record indicator_frame =
  f_bars :: "bar list"
  rsi :: "fnum list"
  macd :: "fnum list"
  macd_signal :: "fnum list"
  macd_histogram :: "fnum list"
  bb_middle :: "fnum list"
  bb_upper :: "fnum list"
  bb_lower :: "fnum list"
  sma_20 :: "fnum list"
  sma_50 :: "fnum list"
  ema_12 :: "fnum list"
  ema_26 :: "fnum list"
  volume_sma :: "fnum list"

definition calculate_indicators :: "bar list \<Rightarrow> indicator_frame" where
  "calculate_indicators data =
     (let closes = map close data;
          gain = avg_gain closes;
          loss = avg_loss closes;
          rs = map2 fdiv gain loss;
          exp1 = ewm_mean 12 closes;
          exp2 = ewm_mean 26 closes;
          macd_line = map2 (\<lambda>a b. a - b) exp1 exp2;
          signal_line = ewm_mean 9 macd_line;
          middle = rolling 20 np_mean (map Fin closes);
          bb_std = rolling 20 sample_std (map Fin closes)
      in \<lparr>f_bars = data,
          rsi = map (\<lambda>r. fsub (Fin 100) (fdiv (Fin 100) (fadd (Fin 1) r))) rs,
          macd = map Fin macd_line,
          macd_signal = map Fin signal_line,
          macd_histogram = map Fin (map2 (\<lambda>a b. a - b) macd_line signal_line),
          bb_middle = middle,
          bb_upper = map2 (\<lambda>m s. fadd m (fmul s (Fin 2))) middle bb_std,
          bb_lower = map2 (\<lambda>m s. fsub m (fmul s (Fin 2))) middle bb_std,
          sma_20 = rolling 20 np_mean (map Fin closes),
          sma_50 = rolling 50 np_mean (map Fin closes),
          ema_12 = map Fin (ewm_mean 12 closes),
          ema_26 = map Fin (ewm_mean 26 closes),
          volume_sma = rolling 20 np_mean (map Fin (map volume data))\<rparr>)"

section \<open>Quantities and inputs used in the statements\<close>

text \<open>The number of units a sell fills: the 2% size, capped by what is held.\<close>

definition sell_quantity_of :: "engine \<Rightarrow> bar \<Rightarrow> position \<Rightarrow> real" where
  "sell_quantity_of s b p = min (capital s * 0.02 / close b) (quantity p)"

text \<open>The market value of the remainder that a sell drops from the ledger when it
  removes a position holding at most 0.001 units.\<close>

definition dust_written_off :: "engine \<Rightarrow> signal \<Rightarrow> bar \<Rightarrow> real" where
  "dust_written_off s sg b =
     (if s_side sg = ''sell'' then
        (case map_of (positions s) (s_symbol sg) of
           None \<Rightarrow> 0
         | Some p \<Rightarrow>
             (if quantity p - sell_quantity_of s b p \<le> 0.001
              then (quantity p - sell_quantity_of s b p) * close b else 0))
      else 0)"

definition bar_at :: "nat \<Rightarrow> real \<Rightarrow> bar" where
  "bar_at t c = \<lparr>timestamp = t, b_open = c, high = c, low = c, close = c, volume = 1000\<rparr>"

definition sig_of :: "string \<Rightarrow> string \<Rightarrow> real \<Rightarrow> signal" where
  "sig_of sy sd c = \<lparr>s_strategy = ''RSI'', s_symbol = sy, s_side = sd, s_confidence = c\<rparr>"






text \<open>The ledger after the rounds for bars \<open>0 .. i\<close> of the loop.\<close>

definition ledger_after :: "'st strategy \<Rightarrow> bar list \<Rightarrow> 'st \<times> engine \<Rightarrow> nat \<Rightarrow> engine" where
  "ledger_after strategy test_data acc i =
     snd (foldl (backtest_step strategy test_data) acc [0..<Suc i])"

text \<open>A strategy that never signals, and a flat series of \<open>n\<close> bars.\<close>

definition silent :: "unit strategy" where
  "silent st bars = ([], st)"

definition flat_bars :: "nat \<Rightarrow> bar list" where
  "flat_bars n = map (\<lambda>t. bar_at t 100) [0..<n]"

text \<open>Five signals of one cycle: three buys on AAA (two of them tied at the greatest
  confidence), and a buy and a sell on BBB.\<close>

definition cycle_signals :: "signal list" where
  "cycle_signals =
     [\<lparr>s_strategy = ''RSI'', s_symbol = ''AAA'', s_side = ''buy'', s_confidence = 0.6\<rparr>,
      \<lparr>s_strategy = ''RSI'', s_symbol = ''BBB'', s_side = ''buy'', s_confidence = 0.7\<rparr>,
      \<lparr>s_strategy = ''MACD'', s_symbol = ''AAA'', s_side = ''buy'', s_confidence = 0.9\<rparr>,
      \<lparr>s_strategy = ''MACD'', s_symbol = ''BBB'', s_side = ''sell'', s_confidence = 0.8\<rparr>,
      \<lparr>s_strategy = ''Grid'', s_symbol = ''AAA'', s_side = ''buy'', s_confidence = 0.9\<rparr>]"

text \<open>A trade history for the strategy RSI with three wins of 100 and two losses of 50
  (win rate 0.6), next to a trade of another strategy; and one with a single loss.\<close>

definition rsi_history :: "risk_trade list" where
  "rsi_history =
     [\<lparr>rt_strategy = Some ''RSI'', rt_profit = 100\<rparr>,
      \<lparr>rt_strategy = Some ''RSI'', rt_profit = - 50\<rparr>,
      \<lparr>rt_strategy = Some ''MACD'', rt_profit = 7\<rparr>,
      \<lparr>rt_strategy = Some ''RSI'', rt_profit = 100\<rparr>,
      \<lparr>rt_strategy = Some ''RSI'', rt_profit = - 50\<rparr>,
      \<lparr>rt_strategy = Some ''RSI'', rt_profit = 100\<rparr>]"

definition losing_history :: "risk_trade list" where
  "losing_history = [\<lparr>rt_strategy = Some ''RSI'', rt_profit = - 50\<rparr>]"

definition default_config :: risk_config where
  "default_config = \<lparr>default_risk_per_trade = None\<rparr>"

text \<open>A paper portfolio with 1000 in cash and one open position.\<close>

definition small_portfolio :: portfolio where
  "small_portfolio =
     \<lparr>balance = 1000,
      pf_positions = [(''ETHUSDT'', \<lparr>pf_quantity = 1, pf_avg_price = 3000, pf_side = ''long'',
                        pf_entry_time = 5\<rparr>)],
      trade_history = []\<rparr>"

text \<open>A series of \<open>n\<close> bars whose close rises by 1 at every bar.\<close>

definition rising_bars :: "nat \<Rightarrow> bar list" where
  "rising_bars n = map (\<lambda>t. bar_at t (100 + real t)) [0..<n]"

section \<open>Properties of the ledger\<close>

lemma foldl_equity:
  "foldl (\<lambda>eq (symbol, p). eq + quantity p * c) a xs
     = a + (\<Sum>(symbol, p)\<leftarrow>xs. quantity p * c)"
  by (induction xs arbitrary: a) (auto simp: algebra_simps)

lemma equity_sum:
  "calculate_current_equity s b
     = capital s + (\<Sum>(symbol, p)\<leftarrow>positions s. quantity p * close b)"
  by (simp add: calculate_current_equity_def foldl_equity)

lemma sum_update:
  "(\<Sum>(k, p)\<leftarrow>AList.update key v xs. quantity p * c) =
   (\<Sum>(k, p)\<leftarrow>xs. quantity p * c) + quantity v * c
     - (case map_of xs key of None \<Rightarrow> 0 | Some p \<Rightarrow> quantity p * c)"
  by (induction xs) (auto simp: algebra_simps)

lemma sum_delete:
  "distinct (map fst xs) \<Longrightarrow>
   (\<Sum>(k, p)\<leftarrow>AList.delete key xs. quantity p * c) =
   (\<Sum>(k, p)\<leftarrow>xs. quantity p * c)
     - (case map_of xs key of None \<Rightarrow> 0 | Some p \<Rightarrow> quantity p * c)"
proof (induction xs)
  case Nil
  then show ?case by simp
next
  case (Cons a xs)
  obtain k p where a: "a = (k, p)" by (cases a)
  show ?case
  proof (cases "k = key")
    case True
    with Cons.prems a have "key \<notin> fst ` set xs" by auto
    then have "AList.delete key xs = xs"
      by (simp add: delete_id)
    with True a show ?thesis by simp
  next
    case False
    with Cons a show ?thesis by simp
  qed
qed

lemma execute_sell:
  assumes "s_side sg = ''sell''" "map_of (positions s) (s_symbol sg) = Some p"
  shows "execute_backtest_trade s sg b =
     s\<lparr>capital := capital s + sell_quantity_of s b p * close b,
       positions :=
         (if quantity p - sell_quantity_of s b p \<le> 0.001
          then AList.delete (s_symbol sg) (positions s)
          else AList.update (s_symbol sg)
                 (p\<lparr>quantity := quantity p - sell_quantity_of s b p\<rparr>) (positions s)),
       trades := trades s @
         [\<lparr>t_timestamp = timestamp b, t_symbol = s_symbol sg, t_side = ''sell'',
           t_quantity = sell_quantity_of s b p, t_price = close b,
           t_profit = (close b - avg_price p) * sell_quantity_of s b p,
           t_strategy = s_strategy sg\<rparr>]\<rparr>"
  using assms unfolding execute_backtest_trade_def sell_quantity_of_def Let_def
  by simp

lemma execute_buy_fresh:
  assumes "s_side sg = ''buy''" "map_of (positions s) (s_symbol sg) = None"
    "0 \<le> capital s" "0 < close b"
  shows "execute_backtest_trade s sg b =
     s\<lparr>capital := capital s - capital s * 0.02,
       positions := AList.update (s_symbol sg)
          \<lparr>quantity = capital s * 0.02 / close b, avg_price = close b,
           entry_time = timestamp b\<rparr> (positions s)\<rparr>"
  using assms unfolding execute_backtest_trade_def Let_def
  by simp

lemma equity_buy:
  assumes "s_side sg = ''buy''" "0 < close b"
  shows "calculate_current_equity (execute_backtest_trade s sg b) b = calculate_current_equity s b"
proof (cases "map_of (positions s) (s_symbol sg)")
  case None
  with assms show ?thesis
    by (simp add: equity_sum execute_backtest_trade_def Let_def sum_update)
next
  case (Some p)
  with assms show ?thesis
    by (simp add: equity_sum execute_backtest_trade_def Let_def sum_update distrib_right)
qed

lemma equity_sell:
  assumes "s_side sg = ''sell''" "distinct (map fst (positions s))"
  shows "calculate_current_equity (execute_backtest_trade s sg b) b
         = calculate_current_equity s b - dust_written_off s sg b"
proof (cases "map_of (positions s) (s_symbol sg)")
  case None
  with assms show ?thesis
    by (simp add: execute_backtest_trade_def dust_written_off_def)
next
  case (Some p)
  have w: "dust_written_off s sg b =
     (if quantity p - sell_quantity_of s b p \<le> 0.001
      then (quantity p - sell_quantity_of s b p) * close b else 0)"
    using assms(1) Some by (simp add: dust_written_off_def)
  show ?thesis
    unfolding execute_sell[OF assms(1) Some] w
    using assms(2) Some
    by (simp add: equity_sum sum_update sum_delete left_diff_distrib)
qed


text \<open>
  Claim C10, as amended. A fill at the bar's close leaves the mark-to-market equity at
  that close unchanged for every buy, for every signal that is not executed and for every
  sell that leaves more than 0.001 units (or nothing) in the position. A sell that leaves
  a remainder of at most 0.001 units removes the position with that remainder in it, and
  equity falls by the remainder's value at the close.
\<close>

theorem fill_equity_change:
  assumes "distinct (map fst (positions s))" and "0 < close b"
  shows "calculate_current_equity (execute_backtest_trade s sg b) b
         = calculate_current_equity s b - dust_written_off s sg b"
proof -
  consider "s_side sg = ''buy''" | "s_side sg = ''sell''"
    | "s_side sg \<noteq> ''buy''" "s_side sg \<noteq> ''sell''"
    by blast
  then show ?thesis
  proof cases
    case 1
    then show ?thesis
      using assms(2) equity_buy[of sg b s] by (simp add: dust_written_off_def)
  next
    case 2
    then show ?thesis using assms(1) equity_sell by simp
  next
    case 3
    then show ?thesis by (simp add: execute_backtest_trade_def dust_written_off_def)
  qed
qed

theorem fill_equity_change_witness:
  "distinct (map fst (positions
      ((new_engine 10000)\<lparr>positions := [(''AAA'', \<lparr>quantity = 10, avg_price = 100, entry_time = 0\<rparr>)]\<rparr>)))
   \<and> 0 < close (bar_at 1 110)
   \<and> dust_written_off
        ((new_engine 10000)\<lparr>positions := [(''AAA'', \<lparr>quantity = 10, avg_price = 100, entry_time = 0\<rparr>)]\<rparr>)
        (sig_of ''AAA'' ''sell'' 0.8) (bar_at 1 110) = 0
   \<and> calculate_current_equity
        (execute_backtest_trade
           ((new_engine 10000)\<lparr>positions := [(''AAA'', \<lparr>quantity = 10, avg_price = 100, entry_time = 0\<rparr>)]\<rparr>)
           (sig_of ''AAA'' ''sell'' 0.8) (bar_at 1 110))
        (bar_at 1 110) = 11100"
proof -
  let ?s = "(new_engine 10000)\<lparr>positions := [(''AAA'', \<lparr>quantity = 10, avg_price = 100, entry_time = 0\<rparr>)]\<rparr>"
  have d: "distinct (map fst (positions ?s))" by simp
  have c: "0 < close (bar_at 1 110)" by (simp add: bar_at_def)
  have w: "dust_written_off ?s (sig_of ''AAA'' ''sell'' 0.8) (bar_at 1 110) = 0"
    by (simp add: dust_written_off_def sell_quantity_of_def sig_of_def bar_at_def new_engine_def)
  have e: "calculate_current_equity ?s (bar_at 1 110) = 11100"
    by (simp add: calculate_current_equity_def bar_at_def new_engine_def)
  from fill_equity_change[OF d c, of "sig_of ''AAA'' ''sell'' 0.8"] w e d c
  show ?thesis by simp
qed

text \<open>
  Claim C10 as stated fails: start with 10000 in cash, buy at a close of 40000 (0.005
  units for 200), then sell at a close of 45000. The sell fills 196 / 45000 units, the
  0.000644 units left are at most 0.001, the position is removed, and equity at that
  close drops from 10025 to 9996.
\<close>

theorem fill_preserves_equity_counterexample:
  "calculate_current_equity
     (execute_backtest_trade (new_engine 10000) (sig_of ''BTC'' ''buy'' 0.8) (bar_at 0 40000))
     (bar_at 1 45000) = 10025
   \<and> calculate_current_equity
       (execute_backtest_trade
          (execute_backtest_trade (new_engine 10000) (sig_of ''BTC'' ''buy'' 0.8) (bar_at 0 40000))
          (sig_of ''BTC'' ''sell'' 0.8) (bar_at 1 45000))
       (bar_at 1 45000) = 9996
   \<and> calculate_current_equity
       (execute_backtest_trade
          (execute_backtest_trade (new_engine 10000) (sig_of ''BTC'' ''buy'' 0.8) (bar_at 0 40000))
          (sig_of ''BTC'' ''sell'' 0.8) (bar_at 1 45000))
       (bar_at 1 45000)
     \<noteq> calculate_current_equity
       (execute_backtest_trade (new_engine 10000) (sig_of ''BTC'' ''buy'' 0.8) (bar_at 0 40000))
       (bar_at 1 45000)"
  by (simp add: calculate_current_equity_def execute_backtest_trade_def new_engine_def
      bar_at_def sig_of_def Let_def)

lemma set_update_subset: "set (AList.update k v xs) \<subseteq> insert (k, v) (set xs)"
  by (induction xs) auto

lemma set_delete_subset: "set (AList.delete k xs) \<subseteq> set xs"
  by (auto simp: AList.delete_eq)

text \<open>Cash stays positive and held quantities stay non-negative through every fill at a
  positive close; so they are throughout a run started with positive capital.\<close>

lemma fill_keeps_cash_positive:
  assumes cash: "0 < capital s"
      and held: "\<forall>(k, p)\<in>set (positions s). 0 \<le> quantity p"
      and price: "0 < close b"
  shows "0 < capital (execute_backtest_trade s sg b)
         \<and> (\<forall>(k, p)\<in>set (positions (execute_backtest_trade s sg b)). 0 \<le> quantity p)"
proof -
  let ?size = "capital s * 0.02 / close b"
  have size: "0 < ?size" using cash price by simp
  consider (buy) "s_side sg = ''buy''" | (sell) "s_side sg = ''sell''"
    | (other) "s_side sg \<noteq> ''buy''" "s_side sg \<noteq> ''sell''"
    by blast
  then show ?thesis
  proof cases
    case buy
    show ?thesis
    proof (cases "map_of (positions s) (s_symbol sg)")
      case None
      let ?p = "\<lparr>quantity = ?size, avg_price = close b, entry_time = timestamp b\<rparr>"
      have e: "execute_backtest_trade s sg b =
          s\<lparr>capital := capital s - ?size * close b,
            positions := AList.update (s_symbol sg) ?p (positions s)\<rparr>"
        using buy None cash price by (simp add: execute_backtest_trade_def Let_def)
      have "\<forall>(k, p)\<in>insert (s_symbol sg, ?p) (set (positions s)). 0 \<le> quantity p"
        using held size by auto
      then have "\<forall>(k, p)\<in>set (AList.update (s_symbol sg) ?p (positions s)). 0 \<le> quantity p"
        using set_update_subset[of "s_symbol sg" ?p "positions s"] by blast
      then show ?thesis
        unfolding e using cash price by simp
    next
      case (Some p0)
      let ?p = "p0\<lparr>quantity := quantity p0 + ?size,
                     avg_price := ((quantity p0 * avg_price p0) + (?size * close b))
                                    / (quantity p0 + ?size)\<rparr>"
      have e: "execute_backtest_trade s sg b =
          s\<lparr>capital := capital s - ?size * close b,
            positions := AList.update (s_symbol sg) ?p (positions s)\<rparr>"
        using buy Some cash price by (simp add: execute_backtest_trade_def Let_def)
      from Some have "(s_symbol sg, p0) \<in> set (positions s)" by (rule map_of_SomeD)
      with held have "0 \<le> quantity p0" by auto
      then have "\<forall>(k, p)\<in>insert (s_symbol sg, ?p) (set (positions s)). 0 \<le> quantity p"
        using held size by auto
      then have "\<forall>(k, p)\<in>set (AList.update (s_symbol sg) ?p (positions s)). 0 \<le> quantity p"
        using set_update_subset[of "s_symbol sg" ?p "positions s"] by blast
      then show ?thesis
        unfolding e using cash price by simp
    qed
  next
    case sell
    show ?thesis
    proof (cases "map_of (positions s) (s_symbol sg)")
      case None
      then show ?thesis
        using sell cash held by (simp add: execute_backtest_trade_def)
    next
      case (Some p0)
      from Some have "(s_symbol sg, p0) \<in> set (positions s)" by (rule map_of_SomeD)
      with held have q0: "0 \<le> quantity p0" by auto
      have sq: "0 \<le> sell_quantity_of s b p0" "sell_quantity_of s b p0 \<le> quantity p0"
        using q0 size by (simp_all add: sell_quantity_of_def)
      let ?p = "p0\<lparr>quantity := quantity p0 - sell_quantity_of s b p0\<rparr>"
      have "\<forall>(k, p)\<in>insert (s_symbol sg, ?p) (set (positions s)). 0 \<le> quantity p"
        using held sq by auto
      then have u: "\<forall>(k, p)\<in>set (AList.update (s_symbol sg) ?p (positions s)). 0 \<le> quantity p"
        using set_update_subset[of "s_symbol sg" ?p "positions s"] by blast
      have d: "\<forall>(k, p)\<in>set (AList.delete (s_symbol sg) (positions s)). 0 \<le> quantity p"
        using held set_delete_subset[of "s_symbol sg" "positions s"] by blast
      have "0 \<le> sell_quantity_of s b p0 * close b"
        using sq(1) price by simp
      then show ?thesis
        unfolding execute_sell[OF sell Some] using cash u d by simp
    qed
  next
    case other
    then show ?thesis
      using cash held by (simp add: execute_backtest_trade_def)
  qed
qed


text \<open>A sell that comes right after the buy that opened the position, at a higher close,
  never fills the whole position: the buy has taken 2% of the cash, and the sell is sized
  at 2% of what is left.\<close>

lemma sell_right_after_buy_is_partial:
  assumes "s_side bsg = ''buy''" "map_of (positions s) (s_symbol bsg) = None"
    and "0 < capital s" "0 < close b1" "close b1 < close b2"
  shows "capital (execute_backtest_trade s bsg b1) * 0.02 / close b2
           < capital s * 0.02 / close b1"
proof -
  have c: "capital (execute_backtest_trade s bsg b1) = capital s * 0.98"
    using assms by (simp add: execute_buy_fresh)
  have p2: "0 < close b2" using assms by simp
  have "capital s * 0.98 * 0.02 < capital s * 0.02"
    using assms(3) by simp
  then have "capital s * 0.98 * 0.02 / close b2 < capital s * 0.02 / close b2"
    using p2 by (rule divide_strict_right_mono)
  also have "\<dots> < capital s * 0.02 / close b1"
  proof (rule divide_strict_left_mono)
    show "close b1 < close b2" by (rule assms(5))
    show "0 < capital s * 0.02" using assms(3) by simp
    show "0 < close b2 * close b1" using p2 assms(4) by simp
  qed
  finally show ?thesis unfolding c .
qed










section \<open>Properties of the backtest run\<close>

lemma execute_keeps_curve:
  "equity_curve (execute_backtest_trade s sg b) = equity_curve s"
  by (simp add: execute_backtest_trade_def Let_def split: option.splits)

lemma fills_keep_curve:
  "equity_curve (foldl (\<lambda>s sg. execute_backtest_trade s sg b) s sgs) = equity_curve s"
  by (induction sgs arbitrary: s) (simp_all add: execute_keeps_curve)

lemma equity_ignores_curve:
  "calculate_current_equity (s\<lparr>equity_curve := c\<rparr>) b = calculate_current_equity s b"
  by (simp add: calculate_current_equity_def)

lemma prefix_facts:
  assumes "i < length test_data"
  shows "length (take (i + 1) test_data) = i + 1"
    and "last (take (i + 1) test_data) = test_data ! i"
  using assms by (simp_all add: take_Suc_conv_app_nth)

lemma step_skipped:
  assumes "i < length test_data" "i < 49"
  shows "backtest_step strategy test_data acc i = acc"
  using assms by (simp add: backtest_step_def)

lemma step_recorded:
  assumes "i < length test_data" "49 \<le> i"
  shows "equity_curve (snd (backtest_step strategy test_data acc i)) =
           equity_curve (snd acc) @
           [\<lparr>e_timestamp = timestamp (test_data ! i),
             equity = calculate_current_equity (snd (backtest_step strategy test_data acc i))
                        (test_data ! i),
             e_capital = capital (snd (backtest_step strategy test_data acc i))\<rparr>]"
proof -
  define current_data where "current_data = take (i + 1) test_data"
  obtain signals st' where a: "analyze_market strategy (fst acc) current_data = (signals, st')"
    by (cases "analyze_market strategy (fst acc) current_data")
  have n: "\<not> length current_data < 50"
    using assms by (simp add: current_data_def)
  have l: "last current_data = test_data ! i"
    unfolding current_data_def using assms(1) by (rule prefix_facts)
  show ?thesis
    unfolding backtest_step_def Let_def current_data_def[symmetric] using n
    by (simp add: a l fills_keep_curve equity_ignores_curve)
qed

lemma curve_after_rounds:
  assumes "n \<le> length test_data"
  shows "equity_curve (snd (foldl (backtest_step strategy test_data) acc [0..<n])) =
           equity_curve (snd acc) @
           map (\<lambda>i. \<lparr>e_timestamp = timestamp (test_data ! i),
                      equity = calculate_current_equity (ledger_after strategy test_data acc i)
                                 (test_data ! i),
                      e_capital = capital (ledger_after strategy test_data acc i)\<rparr>)
               [49..<n]"
  using assms
proof (induction n)
  case 0
  then show ?case by simp
next
  case (Suc n)
  then have n: "n < length test_data" and ih:
    "equity_curve (snd (foldl (backtest_step strategy test_data) acc [0..<n])) =
           equity_curve (snd acc) @
           map (\<lambda>i. \<lparr>e_timestamp = timestamp (test_data ! i),
                      equity = calculate_current_equity (ledger_after strategy test_data acc i)
                                 (test_data ! i),
                      e_capital = capital (ledger_after strategy test_data acc i)\<rparr>)
               [49..<n]"
    by simp_all
  show ?case
  proof (cases "n < 49")
    case True
    then show ?thesis
      using ih n by (simp add: step_skipped)
  next
    case False
    then have le: "49 \<le> n" by simp
    have "[49..<Suc n] = [49..<n] @ [n]"
      using le by simp
    then show ?thesis
      using ih step_recorded[OF n le, of strategy "foldl (backtest_step strategy test_data) acc [0..<n]"]
      by (simp add: ledger_after_def)
  qed
qed

lemma silent_step_ledger:
  "capital (snd (backtest_step silent test_data acc i)) = capital (snd acc)
   \<and> positions (snd (backtest_step silent test_data acc i)) = positions (snd acc)
   \<and> trades (snd (backtest_step silent test_data acc i)) = trades (snd acc)"
  by (simp add: backtest_step_def analyze_market_def silent_def
      filter_and_prioritize_signals_def Let_def)

lemma silent_rounds_ledger:
  "capital (snd (foldl (backtest_step silent test_data) acc ns)) = capital (snd acc)
   \<and> positions (snd (foldl (backtest_step silent test_data) acc ns)) = positions (snd acc)
   \<and> trades (snd (foldl (backtest_step silent test_data) acc ns)) = trades (snd acc)"
  by (induction ns arbitrary: acc) (simp_all add: silent_step_ledger)

text \<open>
  Claim C2, as amended. The loop skips every bar whose prefix has fewer than 50 bars
  without recording anything, so the first 49 bars leave the ledger as it was; for each
  later bar exactly one equity point is appended, in bar order, carrying the bar's
  timestamp, the cash after the bar's fills, and
  equity = cash + sum over the open positions of quantity x that bar's close. The curve
  of a run over n bars therefore gains n - 49 entries (none when n < 50).
\<close>

theorem equity_curve_of_run:
  "(let final = snd (backtest_loop strategy test_data (st, s)) in
    length (equity_curve final) = length (equity_curve s) + (length test_data - 49)
    \<and> (\<forall>i < length test_data.
          if i < 49 then ledger_after strategy test_data (st, s) i = s
          else (let l = ledger_after strategy test_data (st, s) i in
                equity_curve final ! (length (equity_curve s) + (i - 49)) =
                  \<lparr>e_timestamp = timestamp (test_data ! i),
                   equity = capital l + (\<Sum>(symbol, p)\<leftarrow>positions l. quantity p * close (test_data ! i)),
                   e_capital = capital l\<rparr>)))"
proof -
  let ?pt = "\<lambda>i. \<lparr>e_timestamp = timestamp (test_data ! i),
                  equity = calculate_current_equity (ledger_after strategy test_data (st, s) i)
                             (test_data ! i),
                  e_capital = capital (ledger_after strategy test_data (st, s) i)\<rparr>"
  have curve: "equity_curve (snd (backtest_loop strategy test_data (st, s)))
                 = equity_curve s @ map ?pt [49..<length test_data]"
    unfolding backtest_loop_def
    using curve_after_rounds[of "length test_data" test_data strategy "(st, s)"] by simp
  have len: "length (equity_curve (snd (backtest_loop strategy test_data (st, s))))
               = length (equity_curve s) + (length test_data - 49)"
    by (simp add: curve)
  have early: "ledger_after strategy test_data (st, s) i = s"
    if "i < length test_data" "i < 49" for i
    using that
  proof (induction i)
    case 0
    then show ?case by (simp add: ledger_after_def step_skipped)
  next
    case (Suc i)
    then have "ledger_after strategy test_data (st, s) i = s" by simp
    moreover have "foldl (backtest_step strategy test_data) (st, s) [0..<Suc (Suc i)]
        = foldl (backtest_step strategy test_data) (st, s) [0..<Suc i]"
      using Suc.prems by (simp add: step_skipped)
    ultimately show ?case by (simp add: ledger_after_def)
  qed
  have late: "equity_curve (snd (backtest_loop strategy test_data (st, s)))
                 ! (length (equity_curve s) + (i - 49)) = ?pt i"
    if "i < length test_data" "49 \<le> i" for i
  proof -
    have "i - 49 < length [49..<length test_data]" using that by simp
    moreover have "[49..<length test_data] ! (i - 49) = i" using that by simp
    ultimately show ?thesis
      by (simp add: curve nth_append del: upt_Suc)
  qed
  show ?thesis
    unfolding Let_def using len early late
    by (simp add: equity_sum not_less)
qed

theorem equity_curve_of_run_witness:
  "49 < length (flat_bars 50)
   \<and> length (equity_curve (snd (backtest_loop silent (flat_bars 50) ((), new_engine 10000)))) = 1
   \<and> equity_curve (snd (backtest_loop silent (flat_bars 50) ((), new_engine 10000))) ! 0
       = \<lparr>e_timestamp = 49, equity = 10000, e_capital = 10000\<rparr>"
proof -
  let ?l = "ledger_after silent (flat_bars 50) ((), new_engine 10000) 49"
  have n: "49 < length (flat_bars 50)" by (simp add: flat_bars_def)
  have b: "flat_bars 50 ! 49 = bar_at 49 100"
    by (simp add: flat_bars_def del: upt_Suc)
  have l: "capital ?l = 10000" "positions ?l = []"
    using silent_rounds_ledger[of "flat_bars 50" "((), new_engine 10000)" "[0..<Suc 49]"]
    by (simp_all add: ledger_after_def new_engine_def)
  have len50: "length (flat_bars 50) = 50" by (simp add: flat_bars_def)
  have ec: "equity_curve (new_engine 10000) = []" by (simp add: new_engine_def)
  from equity_curve_of_run[of silent "flat_bars 50" "()" "new_engine 10000"] n
  have "length (equity_curve (snd (backtest_loop silent (flat_bars 50) ((), new_engine 10000))))
          = length (equity_curve (new_engine 10000)) + (length (flat_bars 50) - 49)"
    and "equity_curve (snd (backtest_loop silent (flat_bars 50) ((), new_engine 10000)))
          ! (length (equity_curve (new_engine 10000)) + (49 - 49)) =
          \<lparr>e_timestamp = timestamp (flat_bars 50 ! 49),
           equity = capital ?l + (\<Sum>(symbol, p)\<leftarrow>positions ?l. quantity p * close (flat_bars 50 ! 49)),
           e_capital = capital ?l\<rparr>"
    unfolding Let_def by (auto dest: spec[where x = 49])
  then have "length (equity_curve (snd (backtest_loop silent (flat_bars 50) ((), new_engine 10000)))) = 1"
    and "equity_curve (snd (backtest_loop silent (flat_bars 50) ((), new_engine 10000))) ! 0 =
          \<lparr>e_timestamp = timestamp (bar_at 49 100), equity = 10000, e_capital = 10000\<rparr>"
    unfolding l b len50 ec by simp_all
  then show ?thesis
    using n by (simp add: bar_at_def)
qed

text \<open>
  Claim C2 as stated fails: a run over a single bar appends no equity point, although one
  bar was processed. (The same holds for each of the first 49 bars of any run.)
\<close>

theorem equity_point_per_bar_counterexample:
  "length (flat_bars 1) = 1
   \<and> equity_curve (snd (backtest_loop silent (flat_bars 1) ((), new_engine 10000))) = []"
  by (simp add: backtest_loop_def backtest_step_def flat_bars_def new_engine_def)

text \<open>
  Claim C6. On a ledger without trades the metrics computation returns the explicit
  error record "no trade executed": it does not raise and computes no figure. So does a
  whole run over a non-empty series that ends without a trade.
\<close>

theorem no_trade_result:
  "(trades s = [] \<longrightarrow> calculate_performance_metrics s = Inr (Failed NoTradeExecuted))
   \<and> (test_data \<noteq> [] \<and> trades (snd (backtest_loop strategy test_data (st, s0))) = []
        \<longrightarrow> run_backtest strategy st s0 test_data = Inr (Failed NoTradeExecuted))"
  by (simp add: calculate_performance_metrics_def run_backtest_def)

theorem no_trade_result_witness:
  "trades (new_engine 10000) = []
   \<and> calculate_performance_metrics (new_engine 10000) = Inr (Failed NoTradeExecuted)
   \<and> flat_bars 60 \<noteq> []
   \<and> trades (snd (backtest_loop silent (flat_bars 60) ((), new_engine 10000))) = []
   \<and> run_backtest silent () (new_engine 10000) (flat_bars 60) = Inr (Failed NoTradeExecuted)"
proof -
  have t: "trades (new_engine 10000) = []" by (simp add: new_engine_def)
  have d: "flat_bars 60 \<noteq> []" by (simp add: flat_bars_def)
  have r: "trades (snd (backtest_loop silent (flat_bars 60) ((), new_engine 10000))) = []"
    unfolding backtest_loop_def
    using silent_rounds_ledger[of "flat_bars 60" "((), new_engine 10000)"] t by simp
  from no_trade_result[of "new_engine 10000" "flat_bars 60" silent "()" "new_engine 10000"] t d r
  show ?thesis by simp
qed

section \<open>Properties of the aggregator\<close>

lemma add_to_group_lookup:
  "map_of (add_to_group acc sg) k =
     (if s_symbol sg = k
      then Some ((case map_of acc k of None \<Rightarrow> [] | Some g \<Rightarrow> g) @ [sg])
      else map_of acc k)"
  by (simp add: add_to_group_def update_conv' split: option.splits)

lemma add_to_group_distinct:
  "distinct (map fst acc) \<Longrightarrow> distinct (map fst (add_to_group acc sg))"
  by (simp add: add_to_group_def distinct_update split: option.splits)

lemma grouping_lookup:
  "map_of (foldl add_to_group acc sgs) k =
     (let g = filter (\<lambda>x. s_symbol x = k) sgs
      in case map_of acc k of
           None \<Rightarrow> (if g = [] then None else Some g)
         | Some g0 \<Rightarrow> Some (g0 @ g))"
proof (induction sgs arbitrary: acc)
  case Nil
  then show ?case by (simp split: option.splits)
next
  case (Cons sg sgs)
  show ?case
    by (simp add: Cons.IH add_to_group_lookup Let_def split: option.splits)
qed

lemma grouping_distinct:
  "distinct (map fst acc) \<Longrightarrow> distinct (map fst (foldl add_to_group acc sgs))"
  by (induction sgs arbitrary: acc) (simp_all add: add_to_group_distinct)

lemma group_by_symbol_lookup:
  "map_of (group_by_symbol sgs) k =
     (if filter (\<lambda>x. s_symbol x = k) sgs = [] then None
      else Some (filter (\<lambda>x. s_symbol x = k) sgs))"
  by (simp add: group_by_symbol_def grouping_lookup Let_def)

lemma group_by_symbol_distinct: "distinct (map fst (group_by_symbol sgs))"
  by (simp add: group_by_symbol_def grouping_distinct)

lemma group_by_symbol_member:
  "(k, g) \<in> set (group_by_symbol sgs)
     \<longleftrightarrow> g = filter (\<lambda>x. s_symbol x = k) sgs \<and> g \<noteq> []"
proof -
  have "(k, g) \<in> set (group_by_symbol sgs) \<longleftrightarrow> map_of (group_by_symbol sgs) k = Some g"
    using group_by_symbol_distinct by simp
  then show ?thesis
    by (auto simp: group_by_symbol_lookup)
qed




text \<open>The head of a stable sort is the first element of least key.\<close>

lemma hd_insort_key:
  "hd (insort_key f x ys) = (if ys = [] \<or> f x \<le> f (hd ys) then x else hd ys)"
  by (cases ys) simp_all

lemma sort_key_nonempty: "xs \<noteq> [] \<Longrightarrow> sort_key f xs \<noteq> []"
  by (metis length_sort length_0_conv)

lemma hd_sort_key_first_least:
  fixes f :: "'a \<Rightarrow> 'b::linorder"
  assumes "xs \<noteq> []"
  shows "\<exists>pre post. xs = pre @ hd (sort_key f xs) # post
           \<and> (\<forall>y\<in>set pre. f (hd (sort_key f xs)) < f y)
           \<and> (\<forall>y\<in>set post. f (hd (sort_key f xs)) \<le> f y)"
  using assms
proof (induction xs)
  case Nil
  then show ?case by simp
next
  case (Cons x xs)
  show ?case
  proof (cases "xs = []")
    case True
    then have "x # xs = [] @ hd (sort_key f (x # xs)) # []" by simp
    then show ?thesis by (metis empty_iff empty_set)
  next
    case False
    let ?h = "hd (sort_key f xs)"
    from Cons.IH[OF False] obtain pre post where
      xs: "xs = pre @ ?h # post" and pre: "\<forall>y\<in>set pre. f ?h < f y"
      and post: "\<forall>y\<in>set post. f ?h \<le> f y"
      by blast
    have ne: "sort_key f xs \<noteq> []" using False by (rule sort_key_nonempty)
    show ?thesis
    proof (cases "f x \<le> f ?h")
      case True
      then have h: "hd (sort_key f (x # xs)) = x"
        by (simp add: hd_insort_key)
      have "\<forall>y\<in>set xs. f x \<le> f y"
      proof
        fix y assume "y \<in> set xs"
        then have "y \<in> set pre \<or> y = ?h \<or> y \<in> set post"
          by (subst (asm) xs) auto
        then show "f x \<le> f y"
          using True pre post by (auto intro: order_trans less_imp_le)
      qed
      then have "x # xs = [] @ x # xs \<and> (\<forall>y\<in>set []. f x < f y) \<and> (\<forall>y\<in>set xs. f x \<le> f y)"
        by simp
      then show ?thesis unfolding h by blast
    next
      case False
      then have h: "hd (sort_key f (x # xs)) = ?h"
        using ne by (simp add: hd_insort_key)
      have "x # xs = (x # pre) @ ?h # post"
        using xs by simp
      moreover have "\<forall>y\<in>set (x # pre). f ?h < f y"
        using False pre by auto
      ultimately show ?thesis
        unfolding h using post by blast
    qed
  qed
qed




lemma coherent_iff:
  "signals_are_coherent (sort_by_confidence g)
     \<longleftrightarrow> (\<forall>a\<in>set g. \<forall>b\<in>set g. s_side a = s_side b)"
proof (cases "length g \<le> 1")
  case True
  have l: "signals_are_coherent (sort_by_confidence g)"
    using True by (simp add: signals_are_coherent_def sort_by_confidence_def)
  have "a = b" if "a \<in> set g" "b \<in> set g" for a b
  proof (cases g)
    case Nil
    with that show ?thesis by simp
  next
    case (Cons x xs)
    with True have "xs = []" by simp
    with Cons that show ?thesis by simp
  qed
  with l show ?thesis by blast
next
  case False
  then have ne: "g \<noteq> []" by auto
  have c: "length (remdups (map s_side (sort_by_confidence g))) = card (s_side ` set g)"
    unfolding length_remdups_card_conv sort_by_confidence_def by simp
  have "signals_are_coherent (sort_by_confidence g) \<longleftrightarrow> card (s_side ` set g) = 1"
    using False unfolding signals_are_coherent_def c
    by (simp add: sort_by_confidence_def)
  also have "\<dots> \<longleftrightarrow> (\<forall>a\<in>set g. \<forall>b\<in>set g. s_side a = s_side b)"
  proof
    assume "card (s_side ` set g) = 1"
    then obtain d where "s_side ` set g = {d}"
      by (rule card_1_singletonE)
    then have "s_side a = d" if "a \<in> set g" for a
      using that by (metis imageI singletonD)
    then show "\<forall>a\<in>set g. \<forall>b\<in>set g. s_side a = s_side b"
      by simp
  next
    assume same: "\<forall>a\<in>set g. \<forall>b\<in>set g. s_side a = s_side b"
    have "hd g \<in> set g" using ne by simp
    with same have "s_side ` set g = {s_side (hd g)}"
      by blast
    then show "card (s_side ` set g) = 1" by simp
  qed
  finally show ?thesis .
qed


lemma best_of_group_subset:
  "g \<noteq> [] \<Longrightarrow> set (best_of_group g) \<subseteq> set g"
proof -
  assume "g \<noteq> []"
  then have "sort_by_confidence g \<noteq> []"
    unfolding sort_by_confidence_def by (rule sort_key_nonempty)
  then have "hd (sort_by_confidence g) \<in> set (sort_by_confidence g)"
    by simp
  then have "hd (sort_by_confidence g) \<in> set g"
    by (simp add: sort_by_confidence_def)
  then show ?thesis
    by (auto simp: best_of_group_def Let_def)
qed

lemma best_of_group_symbol:
  assumes "g \<noteq> []" "\<forall>x\<in>set g. s_symbol x = k'"
  shows "filter (\<lambda>y. s_symbol y = k) (best_of_group g) = (if k' = k then best_of_group g else [])"
proof -
  have "\<forall>y\<in>set (best_of_group g). s_symbol y = k'"
    using assms best_of_group_subset by blast
  then show ?thesis
    by (simp add: filter_empty_conv)
qed

lemma best_of_groups_filter:
  assumes "distinct (map fst gs)"
      and "\<forall>(k', g)\<in>set gs. g \<noteq> [] \<and> (\<forall>x\<in>set g. s_symbol x = k')"
  shows "filter (\<lambda>y. s_symbol y = k)
           (concat (map (\<lambda>(symbol, symbol_signals). best_of_group symbol_signals) gs))
         = (case map_of gs k of None \<Rightarrow> [] | Some g \<Rightarrow> best_of_group g)"
  using assms
proof (induction gs)
  case Nil
  then show ?case by simp
next
  case (Cons a gs)
  obtain k' g where a: "a = (k', g)" by (cases a)
  from Cons.prems a have g: "g \<noteq> []" "\<forall>x\<in>set g. s_symbol x = k'"
    and d: "k' \<notin> fst ` set gs" and rest: "distinct (map fst gs)"
      "\<forall>(k', g)\<in>set gs. g \<noteq> [] \<and> (\<forall>x\<in>set g. s_symbol x = k')"
    by auto
  note ih = Cons.IH[OF rest]
  show ?case
  proof (cases "k' = k")
    case True
    with d have "map_of gs k = None"
      by (simp add: map_of_eq_None_iff)
    with ih True a g show ?thesis
      by (simp add: best_of_group_symbol[OF g])
  next
    case False
    with ih a g show ?thesis
      by (simp add: best_of_group_symbol[OF g])
  qed
qed

lemma best_of_groups_symbols:
  assumes "\<forall>(k', g)\<in>set gs. g \<noteq> [] \<and> (\<forall>x\<in>set g. s_symbol x = k')"
  shows "map s_symbol (concat (map (\<lambda>(symbol, symbol_signals). best_of_group symbol_signals) gs))
         = map fst (filter (\<lambda>(k', g). signals_are_coherent (sort_by_confidence g)) gs)"
  using assms
proof (induction gs)
  case Nil
  then show ?case by simp
next
  case (Cons a gs)
  obtain k' g where a: "a = (k', g)" by (cases a)
  from Cons.prems a have g: "g \<noteq> []" "\<forall>x\<in>set g. s_symbol x = k'"
    and rest: "\<forall>(k', g)\<in>set gs. g \<noteq> [] \<and> (\<forall>x\<in>set g. s_symbol x = k')"
    by auto
  have "hd (sort_by_confidence g) \<in> set g"
    using best_of_group_subset[OF g(1)] sort_key_nonempty[OF g(1), of "\<lambda>x. - s_confidence x"]
    by (metis hd_in_set set_sort sort_by_confidence_def)
  with g have "s_symbol (hd (sort_by_confidence g)) = k'" by blast
  with Cons.IH[OF rest] a show ?case
    by (simp add: best_of_group_def Let_def)
qed

lemma groups_wellformed:
  "\<forall>(k', g)\<in>set (group_by_symbol sgs). g \<noteq> [] \<and> (\<forall>x\<in>set g. s_symbol x = k')"
proof -
  have "g \<noteq> [] \<and> (\<forall>x\<in>set g. s_symbol x = k')"
    if "(k', g) \<in> set (group_by_symbol sgs)" for k' g
  proof -
    from that have "g = filter (\<lambda>x. s_symbol x = k') sgs" and "g \<noteq> []"
      by (auto simp: group_by_symbol_member)
    then show ?thesis by simp
  qed
  then show ?thesis by blast
qed

lemma output_for_symbol:
  "filter (\<lambda>y. s_symbol y = k) (filter_and_prioritize_signals sgs)
     = (if filter (\<lambda>x. s_symbol x = k) sgs = [] then []
        else best_of_group (filter (\<lambda>x. s_symbol x = k) sgs))"
proof (cases "sgs = []")
  case True
  then show ?thesis by (simp add: filter_and_prioritize_signals_def)
next
  case False
  then show ?thesis
    by (simp add: filter_and_prioritize_signals_def
        best_of_groups_filter[OF group_by_symbol_distinct groups_wellformed]
        group_by_symbol_lookup)
qed

lemma output_symbols_distinct:
  "distinct (map s_symbol (filter_and_prioritize_signals sgs))"
proof (cases "sgs = []")
  case True
  then show ?thesis by (simp add: filter_and_prioritize_signals_def)
next
  case False
  then show ?thesis
    by (simp add: filter_and_prioritize_signals_def best_of_groups_symbols[OF groups_wellformed]
        distinct_map_filter group_by_symbol_distinct)
qed

text \<open>
  Claim C4. The aggregator is a function of its input list. Its output holds at most one
  signal per symbol. If the signals of a symbol do not all have the same side (in
  particular if a buy and a sell are among them), the output has no entry for that
  symbol. If they all have the same side, the output has exactly one entry for the
  symbol: the first signal, in input order, among those of greatest confidence.
\<close>

theorem aggregator_output:
  "distinct (map s_symbol (filter_and_prioritize_signals sgs))
   \<and> ((\<exists>a\<in>set sgs. \<exists>b\<in>set sgs. s_symbol a = k \<and> s_symbol b = k
          \<and> s_side a = ''buy'' \<and> s_side b = ''sell'')
        \<longrightarrow> k \<notin> s_symbol ` set (filter_and_prioritize_signals sgs))
   \<and> ((\<exists>a\<in>set sgs. s_symbol a = k)
        \<and> (\<forall>a\<in>set sgs. \<forall>b\<in>set sgs. s_symbol a = k \<and> s_symbol b = k \<longrightarrow> s_side a = s_side b)
        \<longrightarrow> (\<exists>x pre post.
               filter (\<lambda>y. s_symbol y = k) (filter_and_prioritize_signals sgs) = [x]
               \<and> filter (\<lambda>y. s_symbol y = k) sgs = pre @ x # post
               \<and> (\<forall>y\<in>set pre. s_confidence y < s_confidence x)
               \<and> (\<forall>y\<in>set post. s_confidence y \<le> s_confidence x)))"
proof (intro conjI impI)
  show "distinct (map s_symbol (filter_and_prioritize_signals sgs))"
    by (rule output_symbols_distinct)
next
  let ?g = "filter (\<lambda>x. s_symbol x = k) sgs"
  assume "\<exists>a\<in>set sgs. \<exists>b\<in>set sgs. s_symbol a = k \<and> s_symbol b = k
            \<and> s_side a = ''buy'' \<and> s_side b = ''sell''"
  then obtain a b where ab: "a \<in> set sgs" "b \<in> set sgs" "s_symbol a = k" "s_symbol b = k"
    "s_side a = ''buy''" "s_side b = ''sell''"
    by blast
  then have m: "a \<in> set ?g" "b \<in> set ?g"
    by simp_all
  have "s_side a \<noteq> s_side b"
    using ab(5,6) by simp
  with m have "\<not> (\<forall>a\<in>set ?g. \<forall>b\<in>set ?g. s_side a = s_side b)"
    by blast
  moreover from m have "?g \<noteq> []"
    by (metis empty_iff empty_set)
  ultimately have "\<not> signals_are_coherent (sort_by_confidence ?g)" and "?g \<noteq> []"
    by (simp_all only: coherent_iff not_False_eq_True)
  then have "filter (\<lambda>y. s_symbol y = k) (filter_and_prioritize_signals sgs) = []"
    unfolding output_for_symbol by (simp add: best_of_group_def Let_def)
  then have "\<forall>y\<in>set (filter_and_prioritize_signals sgs). s_symbol y \<noteq> k"
    by (simp only: filter_empty_conv) 
  then show "k \<notin> s_symbol ` set (filter_and_prioritize_signals sgs)"
    by blast
next
  let ?g = "filter (\<lambda>x. s_symbol x = k) sgs"
  let ?x = "hd (sort_by_confidence ?g)"
  assume h: "(\<exists>a\<in>set sgs. s_symbol a = k)
        \<and> (\<forall>a\<in>set sgs. \<forall>b\<in>set sgs. s_symbol a = k \<and> s_symbol b = k \<longrightarrow> s_side a = s_side b)"
  then have h1: "\<exists>a\<in>set sgs. s_symbol a = k"
    and h2: "\<forall>a\<in>set sgs. \<forall>b\<in>set sgs. s_symbol a = k \<and> s_symbol b = k \<longrightarrow> s_side a = s_side b"
    by (rule conjunct1, rule conjunct2)
  from h1 obtain a0 where "a0 \<in> set sgs" "s_symbol a0 = k"
    by blast
  then have "a0 \<in> set ?g"
    by simp
  then have ne: "?g \<noteq> []"
    by (metis empty_iff empty_set)
  have "s_side a = s_side b" if "a \<in> set ?g" "b \<in> set ?g" for a b
  proof -
    from that have "a \<in> set sgs" "b \<in> set sgs" "s_symbol a = k" "s_symbol b = k"
      by simp_all
    with h2 show ?thesis by blast
  qed
  then have "\<forall>a\<in>set ?g. \<forall>b\<in>set ?g. s_side a = s_side b"
    by blast
  then have coh: "signals_are_coherent (sort_by_confidence ?g)"
    by (simp only: coherent_iff)
  have out: "filter (\<lambda>y. s_symbol y = k) (filter_and_prioritize_signals sgs) = [?x]"
    unfolding output_for_symbol by (simp add: best_of_group_def Let_def coh ne)
  have "\<exists>pre post. ?g = pre @ ?x # post
          \<and> (\<forall>y\<in>set pre. - s_confidence ?x < - s_confidence y)
          \<and> (\<forall>y\<in>set post. - s_confidence ?x \<le> - s_confidence y)"
    unfolding sort_by_confidence_def
    by (rule hd_sort_key_first_least[OF ne, of "\<lambda>x. - s_confidence x"])
  then obtain pre post where "?g = pre @ ?x # post"
    "\<forall>y\<in>set pre. s_confidence y < s_confidence ?x"
    "\<forall>y\<in>set post. s_confidence y \<le> s_confidence ?x"
    by (simp only: neg_less_iff_less neg_le_iff_le) blast
  with out show "\<exists>x pre post.
               filter (\<lambda>y. s_symbol y = k) (filter_and_prioritize_signals sgs) = [x]
               \<and> filter (\<lambda>y. s_symbol y = k) sgs = pre @ x # post
               \<and> (\<forall>y\<in>set pre. s_confidence y < s_confidence x)
               \<and> (\<forall>y\<in>set post. s_confidence y \<le> s_confidence x)"
    by blast
qed

lemma cycle_signals_output:
  "filter_and_prioritize_signals cycle_signals =
     [\<lparr>s_strategy = ''MACD'', s_symbol = ''AAA'', s_side = ''buy'', s_confidence = 0.9\<rparr>]"
  by (simp add: filter_and_prioritize_signals_def cycle_signals_def group_by_symbol_def
      add_to_group_def best_of_group_def sort_by_confidence_def signals_are_coherent_def Let_def)

theorem aggregator_output_witness:
  "(\<exists>a\<in>set cycle_signals. \<exists>b\<in>set cycle_signals. s_symbol a = ''BBB'' \<and> s_symbol b = ''BBB''
          \<and> s_side a = ''buy'' \<and> s_side b = ''sell'')
   \<and> ''BBB'' \<notin> s_symbol ` set (filter_and_prioritize_signals cycle_signals)
   \<and> (\<exists>a\<in>set cycle_signals. s_symbol a = ''AAA'')
   \<and> s_side ` set (filter (\<lambda>y. s_symbol y = ''AAA'') cycle_signals) = {''buy''}
   \<and> (\<exists>x pre post.
         filter (\<lambda>y. s_symbol y = ''AAA'') (filter_and_prioritize_signals cycle_signals) = [x]
         \<and> filter (\<lambda>y. s_symbol y = ''AAA'') cycle_signals = pre @ x # post
         \<and> (\<forall>y\<in>set pre. s_confidence y < s_confidence x)
         \<and> (\<forall>y\<in>set post. s_confidence y \<le> s_confidence x))
   \<and> filter_and_prioritize_signals cycle_signals =
       [\<lparr>s_strategy = ''MACD'', s_symbol = ''AAA'', s_side = ''buy'', s_confidence = 0.9\<rparr>]"
proof -
  have h1: "\<exists>a\<in>set cycle_signals. \<exists>b\<in>set cycle_signals. s_symbol a = ''BBB'' \<and> s_symbol b = ''BBB''
          \<and> s_side a = ''buy'' \<and> s_side b = ''sell''"
    by (simp add: cycle_signals_def)
  have h2: "(\<exists>a\<in>set cycle_signals. s_symbol a = ''AAA'')
     \<and> (\<forall>a\<in>set cycle_signals. \<forall>b\<in>set cycle_signals.
         s_symbol a = ''AAA'' \<and> s_symbol b = ''AAA'' \<longrightarrow> s_side a = s_side b)"
    by (simp add: cycle_signals_def)
  note b = aggregator_output[of cycle_signals "''BBB''"]
  note a = aggregator_output[of cycle_signals "''AAA''"]
  from conjunct1[OF conjunct2[OF b]] h1
  have c1: "''BBB'' \<notin> s_symbol ` set (filter_and_prioritize_signals cycle_signals)"
    by (rule mp)
  from conjunct2[OF conjunct2[OF a]] h2
  have c2: "\<exists>x pre post.
         filter (\<lambda>y. s_symbol y = ''AAA'') (filter_and_prioritize_signals cycle_signals) = [x]
         \<and> filter (\<lambda>y. s_symbol y = ''AAA'') cycle_signals = pre @ x # post
         \<and> (\<forall>y\<in>set pre. s_confidence y < s_confidence x)
         \<and> (\<forall>y\<in>set post. s_confidence y \<le> s_confidence x)"
    by (rule mp)
  have h3: "s_side ` set (filter (\<lambda>y. s_symbol y = ''AAA'') cycle_signals) = {''buy''}"
    by (simp add: cycle_signals_def)
  from h1 c1 conjunct1[OF h2] h3 c2 cycle_signals_output show ?thesis
    by (intro conjI)
qed

section \<open>Properties of position sizing\<close>

lemma clamp_lower: "0 \<le> max 0 (min (0.25::real) x)"
  by simp

lemma clamp_upper: "max 0 (min (0.25::real) x) \<le> 0.25"
  by simp

lemma sum_list_negative:
  "xs \<noteq> [] \<Longrightarrow> \<forall>x\<in>set xs. x < (0::real) \<Longrightarrow> sum_list xs < 0"
proof (induction xs)
  case Nil
  then show ?case by simp
next
  case (Cons x xs)
  show ?case
  proof (cases "xs = []")
    case True
    with Cons.prems show ?thesis by simp
  next
    case False
    with Cons have "sum_list xs < 0" by simp
    moreover from Cons.prems have "x < 0" by simp
    ultimately show ?thesis by simp
  qed
qed

lemma mean_negative:
  assumes "xs \<noteq> []" "\<forall>x\<in>set xs. x < (0::real)"
  shows "mean xs < 0"
proof -
  have "sum_list xs < 0" using assms by (rule sum_list_negative)
  moreover have "0 < real (length xs)" using assms(1) by simp
  ultimately show ?thesis
    unfolding mean_def by (rule divide_neg_pos)
qed

lemma avg_loss_positive:
  "0 < snd (snd (get_strategy_stats history strategy_name))"
proof -
  let ?ts = "filter (\<lambda>t. rt_strategy t = Some strategy_name) history"
  let ?losses = "filter (\<lambda>t. rt_profit t < 0) ?ts"
  have "0 < \<bar>mean (map rt_profit ?losses)\<bar>" if "?losses \<noteq> []"
  proof -
    have "mean (map rt_profit ?losses) < 0"
      using that by (intro mean_negative) simp_all
    then show ?thesis by simp
  qed
  then show ?thesis
    by (simp add: get_strategy_stats_def Let_def)
qed

lemma stats_of_trades:
  assumes "filter (\<lambda>t. rt_strategy t = Some strategy_name) history \<noteq> []"
  shows "get_strategy_stats history strategy_name =
     (let ts = filter (\<lambda>t. rt_strategy t = Some strategy_name) history;
          wins = filter (\<lambda>t. 0 < rt_profit t) ts;
          losses = filter (\<lambda>t. rt_profit t < 0) ts
      in (real (length wins) / real (length ts),
          (if wins = [] then 1 else mean (map rt_profit wins)),
          (if losses = [] then 1 else \<bar>mean (map rt_profit losses)\<bar>)))"
  using assms by (simp add: get_strategy_stats_def Let_def)

text \<open>
  Claim C3, as amended. Write ts for the trades recorded for the signal's strategy, p for
  its win rate and b for avg_win / avg_loss (avg_win and avg_loss being 1 when there is
  no win, respectively no loss). With no recorded trade the statistics are the defaults
  (0.5, 1, 1), the Kelly fraction is 0 and the call returns 0, not the percentage size.
  With trades but no winning one (win rate 0) the call returns the percentage size,
  balance x configured risk per trade. With at least one winning trade it returns
  balance x f, where f is (b p - q) / b limited to [0, 0.25]. The average loss is never
  zero, so that test of the fallback never fires.
\<close>

theorem kelly_sizing:
  "(let ts = filter (\<lambda>t. rt_strategy t = Some (s_strategy sg)) history;
        wins = filter (\<lambda>t. 0 < rt_profit t) ts;
        losses = filter (\<lambda>t. rt_profit t < 0) ts;
        p = real (length wins) / real (length ts);
        q = 1 - p;
        b = (if wins = [] then 1 else mean (map rt_profit wins))
              / (if losses = [] then 1 else \<bar>mean (map rt_profit losses)\<bar>);
        f = max 0 (min 0.25 ((b * p - q) / b))
    in (ts = [] \<longrightarrow> kelly_position_size cfg history sg account_balance = 0)
     \<and> (ts \<noteq> [] \<and> wins = [] \<longrightarrow>
           kelly_position_size cfg history sg account_balance
             = account_balance * (case default_risk_per_trade cfg of None \<Rightarrow> 0.02 | Some r \<Rightarrow> r))
     \<and> (wins \<noteq> [] \<longrightarrow>
           kelly_position_size cfg history sg account_balance = account_balance * f
           \<and> 0 \<le> f \<and> f \<le> 0.25)
     \<and> snd (snd (get_strategy_stats history (s_strategy sg))) \<noteq> 0)"
proof -
  let ?ts = "filter (\<lambda>t. rt_strategy t = Some (s_strategy sg)) history"
  let ?wins = "filter (\<lambda>t. 0 < rt_profit t) ?ts"
  let ?losses = "filter (\<lambda>t. rt_profit t < 0) ?ts"
  have al: "snd (snd (get_strategy_stats history (s_strategy sg))) \<noteq> 0"
    using avg_loss_positive[of history "s_strategy sg"] by simp
  have none: "kelly_position_size cfg history sg account_balance = 0" if "?ts = []"
    using that
    by (simp add: kelly_position_size_def get_strategy_stats_def kelly_formula_def Let_def)
  have lpos: "(if ?losses = [] then 1 else \<bar>mean (map rt_profit ?losses)\<bar>) \<noteq> 0" if "?ts \<noteq> []"
    using al that by (simp add: stats_of_trades Let_def)
  have nowin: "kelly_position_size cfg history sg account_balance
             = account_balance * (case default_risk_per_trade cfg of None \<Rightarrow> 0.02 | Some r \<Rightarrow> r)"
    if "?ts \<noteq> []" "?wins = []"
    using that
    by (simp add: kelly_position_size_def stats_of_trades percentage_position_size_def Let_def)
  have win: "kelly_position_size cfg history sg account_balance
      = account_balance * max 0 (min 0.25
          (((if ?wins = [] then 1 else mean (map rt_profit ?wins))
              / (if ?losses = [] then 1 else \<bar>mean (map rt_profit ?losses)\<bar>)
            * (real (length ?wins) / real (length ?ts))
            - (1 - real (length ?wins) / real (length ?ts)))
           / ((if ?wins = [] then 1 else mean (map rt_profit ?wins))
              / (if ?losses = [] then 1 else \<bar>mean (map rt_profit ?losses)\<bar>))))"
    if w: "?wins \<noteq> []"
  proof -
    from w have t: "?ts \<noteq> []" by (metis filter.simps(1))
    have "0 < length ?wins" "0 < length ?ts" using w t by simp_all
    then have p: "real (length ?wins) / real (length ?ts) \<noteq> 0" by simp
    show ?thesis
      unfolding kelly_position_size_def stats_of_trades[OF t] Let_def kelly_formula_def
      using p lpos[OF t] by simp
  qed
  show ?thesis
    unfolding Let_def
  proof (intro conjI impI)
    assume "?ts = []"
    then show "kelly_position_size cfg history sg account_balance = 0"
      by (rule none)
  next
    assume "?ts \<noteq> [] \<and> ?wins = []"
    then show "kelly_position_size cfg history sg account_balance
             = account_balance * (case default_risk_per_trade cfg of None \<Rightarrow> 0.02 | Some r \<Rightarrow> r)"
      using nowin by blast
  next
    assume "?wins \<noteq> []"
    then show "kelly_position_size cfg history sg account_balance
      = account_balance * max 0 (min 0.25
          (((if ?wins = [] then 1 else mean (map rt_profit ?wins))
              / (if ?losses = [] then 1 else \<bar>mean (map rt_profit ?losses)\<bar>)
            * (real (length ?wins) / real (length ?ts))
            - (1 - real (length ?wins) / real (length ?ts)))
           / ((if ?wins = [] then 1 else mean (map rt_profit ?wins))
              / (if ?losses = [] then 1 else \<bar>mean (map rt_profit ?losses)\<bar>))))"
      by (rule win)
  next
    show "snd (snd (get_strategy_stats history (s_strategy sg))) \<noteq> 0"
      by (rule al)
  qed (rule clamp_lower clamp_upper)+
qed

theorem kelly_sizing_witness:
  "kelly_position_size default_config [] (sig_of ''AAA'' ''buy'' 0.8) 1000 = 0
   \<and> kelly_position_size default_config losing_history (sig_of ''AAA'' ''buy'' 0.8) 1000 = 20
   \<and> kelly_position_size default_config rsi_history (sig_of ''AAA'' ''buy'' 0.8) 1000 = 250"
proof -
  have a: "kelly_position_size default_config [] (sig_of ''AAA'' ''buy'' 0.8) 1000 = 0"
    using kelly_sizing[of "sig_of ''AAA'' ''buy'' 0.8" "[]" default_config 1000]
    by (simp add: Let_def)
  have b: "kelly_position_size default_config losing_history (sig_of ''AAA'' ''buy'' 0.8) 1000 = 20"
    using kelly_sizing[of "sig_of ''AAA'' ''buy'' 0.8" losing_history default_config 1000]
    by (simp add: Let_def losing_history_def sig_of_def default_config_def)
  have c: "kelly_position_size default_config rsi_history (sig_of ''AAA'' ''buy'' 0.8) 1000 = 250"
    using kelly_sizing[of "sig_of ''AAA'' ''buy'' 0.8" rsi_history default_config 1000]
    by (simp add: Let_def rsi_history_def sig_of_def mean_def)
  from a b c show ?thesis by simp
qed

text \<open>
  Claim C3 as stated fails: for a strategy without trade history the sizing call returns
  0, not the percentage-based size (20 for a balance of 1000 at the default 2%).
\<close>

theorem kelly_fallback_counterexample:
  "filter (\<lambda>t. rt_strategy t = Some (s_strategy (sig_of ''AAA'' ''buy'' 0.8))) [] = []
   \<and> kelly_position_size default_config [] (sig_of ''AAA'' ''buy'' 0.8) 1000 = 0
   \<and> percentage_position_size default_config (sig_of ''AAA'' ''buy'' 0.8) 1000 = 20
   \<and> kelly_position_size default_config [] (sig_of ''AAA'' ''buy'' 0.8) 1000
       \<noteq> percentage_position_size default_config (sig_of ''AAA'' ''buy'' 0.8) 1000"
  by (simp add: kelly_position_size_def get_strategy_stats_def kelly_formula_def
      percentage_position_size_def default_config_def Let_def)

text \<open>
  Claim C7. For a strategy whose recorded trades give win_rate 0.6, avg_win 100 and
  avg_loss 50, the Kelly formula gives (2 x 0.6 - 0.4) / 2 = 0.4, the limit brings it to
  0.25, and the sizing call returns 0.25 x balance, for every balance.
\<close>

theorem kelly_example:
  assumes "get_strategy_stats history (s_strategy sg) = (0.6, 100, 50)"
  shows "kelly_formula 0.6 100 50 = 0.4
         \<and> max 0 (min 0.25 (kelly_formula 0.6 100 50)) = 0.25
         \<and> kelly_position_size cfg history sg account_balance = 0.25 * account_balance"
proof -
  have f: "kelly_formula 0.6 100 50 = 0.4"
    by (simp add: kelly_formula_def)
  then have c: "max 0 (min 0.25 (kelly_formula 0.6 100 50)) = (0.25::real)"
    by simp
  have "kelly_position_size cfg history sg account_balance
          = account_balance * max 0 (min 0.25 (kelly_formula 0.6 100 50))"
    unfolding kelly_position_size_def assms by (simp add: Let_def)
  with f c show ?thesis by simp
qed

theorem kelly_example_witness:
  "get_strategy_stats rsi_history (s_strategy (sig_of ''AAA'' ''buy'' 0.8)) = (0.6, 100, 50)
   \<and> kelly_position_size default_config rsi_history (sig_of ''AAA'' ''buy'' 0.8) 1000 = 250"
proof -
  have h: "get_strategy_stats rsi_history (s_strategy (sig_of ''AAA'' ''buy'' 0.8)) = (0.6, 100, 50)"
    by (simp add: get_strategy_stats_def rsi_history_def sig_of_def mean_def Let_def)
  from kelly_example[OF h, of default_config 1000] h show ?thesis
    by simp
qed

section \<open>Properties of paper orders\<close>

text \<open>
  Claim C9. A paper buy whose cost exceeds the balance, and a paper sell on a symbol
  without open position, return the rejected outcome (success false, with the error),
  and the balance, the positions and the trade history are exactly as before.
\<close>

theorem paper_order_rejected:
  assumes "(side = ''buy'' \<and> balance pf < amount)
           \<or> (side = ''sell'' \<and> map_of (pf_positions pf) symbol = None)"
  shows "place_paper_order pf now symbol side amount price order_type
           = (pf, Rejected (if side = ''buy'' then InsufficientBalance else NoPositionToSell))"
  using assms by (auto simp: place_paper_order_def Let_def)

theorem paper_order_rejected_witness:
  "balance small_portfolio < 1500
   \<and> place_paper_order small_portfolio 9 ''ETHUSDT'' ''buy'' 1500 None ''market''
       = (small_portfolio, Rejected InsufficientBalance)
   \<and> map_of (pf_positions small_portfolio) ''BTCUSDT'' = None
   \<and> place_paper_order small_portfolio 9 ''BTCUSDT'' ''sell'' 100 (Some 45000) ''market''
       = (small_portfolio, Rejected NoPositionToSell)"
proof -
  have b: "balance small_portfolio < 1500" by (simp add: small_portfolio_def)
  have s: "map_of (pf_positions small_portfolio) ''BTCUSDT'' = None"
    by (simp add: small_portfolio_def)
  from paper_order_rejected[of "''buy''" small_portfolio 1500 "''ETHUSDT''" 9 None "''market''"] b
  have r1: "place_paper_order small_portfolio 9 ''ETHUSDT'' ''buy'' 1500 None ''market''
       = (small_portfolio, Rejected InsufficientBalance)"
    by simp
  from paper_order_rejected[of "''sell''" small_portfolio 100 "''BTCUSDT''" 9 "Some 45000" "''market''"] s
  have r2: "place_paper_order small_portfolio 9 ''BTCUSDT'' ''sell'' 100 (Some 45000) ''market''
       = (small_portfolio, Rejected NoPositionToSell)"
    by simp
  from b s r1 r2 show ?thesis by simp
qed

section \<open>Properties of the indicators\<close>

lemma length_rolling: "length (rolling w stat xs) = length xs"
  by (simp add: rolling_def)

lemma rolling_nth:
  "i < length xs \<Longrightarrow>
   rolling w stat xs ! i = (if i + 1 < w then NaN else stat (take w (drop (i + 1 - w) xs)))"
  by (simp add: rolling_def)

lemma rolling_short:
  assumes "length xs < w"
  shows "\<forall>v\<in>set (rolling w stat xs). v = NaN"
proof
  fix v assume "v \<in> set (rolling w stat xs)"
  then obtain i where "i < length xs"
    and v: "v = (if i + 1 < w then NaN else stat (take w (drop (i + 1 - w) xs)))"
    by (auto simp: rolling_def)
  with assms show "v = NaN" by simp
qed

lemma length_diff: "length (diff xs) = length xs"
  by (cases xs) (simp_all add: diff_def)

lemma length_avg_gain: "length (avg_gain xs) = length xs"
  by (simp add: avg_gain_def length_rolling where_or_zero_def length_diff)

lemma length_avg_loss: "length (avg_loss xs) = length xs"
  by (simp add: avg_loss_def length_rolling where_or_zero_def length_diff)

lemma length_ewm_loop: "length (ewm_loop a avg w xs) = length xs"
  by (induction xs arbitrary: avg w) (simp_all add: Let_def)

lemma length_ewm_mean: "length (ewm_mean n xs) = length xs"
  by (cases xs) (simp_all add: ewm_mean_def length_ewm_loop)

lemma map2_left_NaN:
  assumes "\<forall>v\<in>set xs. v = NaN" "\<And>y. f NaN y = NaN"
  shows "\<forall>v\<in>set (map2 f xs ys). v = NaN"
proof
  fix v assume "v \<in> set (map2 f xs ys)"
  then obtain x y where "(x, y) \<in> set (zip xs ys)" "v = f x y"
    by auto
  from this(1) have "x \<in> set xs" by (rule set_zip_leftD)
  with assms(1) have "x = NaN" by blast
  with \<open>v = f x y\<close> show "v = NaN" by (simp add: assms(2))
qed

lemma rsi_short:
  assumes "length data < 14"
  shows "\<forall>v\<in>set (rsi (calculate_indicators data)). v = NaN"
proof -
  have g: "\<forall>v\<in>set (avg_gain (map close data)). v = NaN"
    unfolding avg_gain_def using assms
    by (intro rolling_short) (simp add: where_or_zero_def length_diff)
  have "\<forall>v\<in>set (map2 fdiv (avg_gain (map close data)) (avg_loss (map close data))). v = NaN"
    using g by (rule map2_left_NaN) simp
  then show ?thesis
    by (simp add: calculate_indicators_def Let_def fsub_def)
qed

lemma bands_short:
  assumes "length data < 20"
  shows "\<forall>v\<in>set (bb_middle (calculate_indicators data)). v = NaN"
    and "\<forall>v\<in>set (bb_upper (calculate_indicators data)). v = NaN"
    and "\<forall>v\<in>set (bb_lower (calculate_indicators data)). v = NaN"
    and "\<forall>v\<in>set (sma_20 (calculate_indicators data)). v = NaN"
    and "\<forall>v\<in>set (volume_sma (calculate_indicators data)). v = NaN"
proof -
  have m: "\<forall>v\<in>set (rolling 20 np_mean (map Fin (map close data))). v = NaN"
    using assms by (intro rolling_short) simp
  show "\<forall>v\<in>set (bb_middle (calculate_indicators data)). v = NaN"
    and "\<forall>v\<in>set (sma_20 (calculate_indicators data)). v = NaN"
    using m by (simp_all add: calculate_indicators_def Let_def)
  show "\<forall>v\<in>set (bb_upper (calculate_indicators data)). v = NaN"
    unfolding calculate_indicators_def Let_def indicator_frame.simps
    using m by (rule map2_left_NaN) simp
  show "\<forall>v\<in>set (bb_lower (calculate_indicators data)). v = NaN"
    unfolding calculate_indicators_def Let_def indicator_frame.simps
    using m by (rule map2_left_NaN) (simp add: fsub_def)
  show "\<forall>v\<in>set (volume_sma (calculate_indicators data)). v = NaN"
    unfolding calculate_indicators_def Let_def indicator_frame.simps
    using assms by (intro rolling_short) simp
qed

lemma sma_50_short:
  assumes "length data < 50"
  shows "\<forall>v\<in>set (sma_50 (calculate_indicators data)). v = NaN"
  unfolding calculate_indicators_def Let_def indicator_frame.simps
  using assms by (intro rolling_short) simp

lemma ema_defined:
  "NaN \<notin> set (ema_12 (calculate_indicators data))"
  "NaN \<notin> set (ema_26 (calculate_indicators data))"
  "NaN \<notin> set (macd (calculate_indicators data))"
  "NaN \<notin> set (macd_signal (calculate_indicators data))"
  "NaN \<notin> set (macd_histogram (calculate_indicators data))"
  by (auto simp: calculate_indicators_def Let_def)

lemma ema_lengths:
  "length (ema_12 (calculate_indicators data)) = length data"
  "length (ema_26 (calculate_indicators data)) = length data"
  "length (macd (calculate_indicators data)) = length data"
  "length (macd_signal (calculate_indicators data)) = length data"
  "length (macd_histogram (calculate_indicators data)) = length data"
  by (simp_all add: calculate_indicators_def Let_def length_ewm_mean)

lemma rolling_lengths:
  "length (rsi (calculate_indicators data)) = length data"
  "length (bb_middle (calculate_indicators data)) = length data"
  "length (bb_upper (calculate_indicators data)) = length data"
  "length (bb_lower (calculate_indicators data)) = length data"
  "length (sma_20 (calculate_indicators data)) = length data"
  "length (sma_50 (calculate_indicators data)) = length data"
  "length (volume_sma (calculate_indicators data)) = length data"
  by (simp_all add: calculate_indicators_def Let_def length_rolling length_avg_gain length_avg_loss)

lemma all_NaN_replicate:
  "\<forall>v\<in>set xs. v = NaN \<Longrightarrow> length xs = n \<Longrightarrow> xs = replicate n NaN"
  by (metis replicate_length_same)

lemma ewm_mean_first: "xs \<noteq> [] \<Longrightarrow> ewm_mean n xs ! 0 = xs ! 0"
  by (cases xs) (simp_all add: ewm_mean_def)

lemma first_rows:
  assumes "data \<noteq> []"
  shows "ema_12 (calculate_indicators data) ! 0 = Fin (close (data ! 0))"
    and "ema_26 (calculate_indicators data) ! 0 = Fin (close (data ! 0))"
    and "macd (calculate_indicators data) ! 0 = Fin 0"
    and "macd_signal (calculate_indicators data) ! 0 = Fin 0"
    and "macd_histogram (calculate_indicators data) ! 0 = Fin 0"
proof -
  let ?c = "map close data"
  have c: "?c \<noteq> []" "0 < length data" using assms by simp_all
  have e: "ewm_mean 12 ?c ! 0 = close (data ! 0)" "ewm_mean 26 ?c ! 0 = close (data ! 0)"
    using c by (simp_all add: ewm_mean_first)
  let ?m = "map2 (\<lambda>a b. a - b) (ewm_mean 12 ?c) (ewm_mean 26 ?c)"
  have lm: "length ?m = length data" by (simp add: length_ewm_mean)
  have m0: "?m ! 0 = 0"
    using c e by (simp add: length_ewm_mean)
  have s0: "ewm_mean 9 ?m ! 0 = 0"
    using lm c m0 by (subst ewm_mean_first) auto
  have h0: "map2 (\<lambda>a b. a - b) ?m (ewm_mean 9 ?m) ! 0 = 0"
    using lm c m0 s0 by (simp add: length_ewm_mean)
  show "ema_12 (calculate_indicators data) ! 0 = Fin (close (data ! 0))"
    and "ema_26 (calculate_indicators data) ! 0 = Fin (close (data ! 0))"
    using c e by (simp_all add: calculate_indicators_def Let_def length_ewm_mean)
  show "macd (calculate_indicators data) ! 0 = Fin 0"
    unfolding calculate_indicators_def Let_def indicator_frame.simps
    using lm c m0 by (subst nth_map) simp_all
  show "macd_signal (calculate_indicators data) ! 0 = Fin 0"
    unfolding calculate_indicators_def Let_def indicator_frame.simps
    using lm c s0 by (subst nth_map) (simp_all add: length_ewm_mean)
  show "macd_histogram (calculate_indicators data) ! 0 = Fin 0"
    unfolding calculate_indicators_def Let_def indicator_frame.simps
    using lm c h0 by (subst nth_map) (simp_all add: length_ewm_mean)
qed

text \<open>
  Claim C5, as amended. On a series shorter than its window a rolling indicator is
  undefined (NaN) on every row: rsi below 14 bars; bb_middle, bb_upper, bb_lower, sma_20
  and volume_sma below 20 bars; sma_50 below 50 bars. The exponentially weighted
  indicators have no minimum window: ema_12, ema_26, macd, macd_signal and
  macd_histogram hold a number on every row of every series, from the first bar on, where
  the two averages equal the close and the three MACD columns are 0.
\<close>

theorem indicators_on_short_series:
  "(let f = calculate_indicators data; n = length data in
      (n < 14 \<longrightarrow> rsi f = replicate n NaN)
    \<and> (n < 20 \<longrightarrow> bb_middle f = replicate n NaN \<and> bb_upper f = replicate n NaN
                  \<and> bb_lower f = replicate n NaN \<and> sma_20 f = replicate n NaN
                  \<and> volume_sma f = replicate n NaN)
    \<and> (n < 50 \<longrightarrow> sma_50 f = replicate n NaN)
    \<and> length (ema_12 f) = n \<and> NaN \<notin> set (ema_12 f)
    \<and> length (ema_26 f) = n \<and> NaN \<notin> set (ema_26 f)
    \<and> length (macd f) = n \<and> NaN \<notin> set (macd f)
    \<and> length (macd_signal f) = n \<and> NaN \<notin> set (macd_signal f)
    \<and> length (macd_histogram f) = n \<and> NaN \<notin> set (macd_histogram f)
    \<and> (0 < n \<longrightarrow> ema_12 f ! 0 = Fin (close (data ! 0)) \<and> ema_26 f ! 0 = Fin (close (data ! 0))
                 \<and> macd f ! 0 = Fin 0 \<and> macd_signal f ! 0 = Fin 0
                 \<and> macd_histogram f ! 0 = Fin 0))"
proof -
  have a: "rsi (calculate_indicators data) = replicate (length data) NaN" if "length data < 14"
    using rsi_short[OF that] rolling_lengths(1) by (rule all_NaN_replicate)
  have b: "bb_middle (calculate_indicators data) = replicate (length data) NaN"
    "bb_upper (calculate_indicators data) = replicate (length data) NaN"
    "bb_lower (calculate_indicators data) = replicate (length data) NaN"
    "sma_20 (calculate_indicators data) = replicate (length data) NaN"
    "volume_sma (calculate_indicators data) = replicate (length data) NaN"
    if "length data < 20"
    using bands_short[OF that] rolling_lengths by (simp_all add: all_NaN_replicate)
  have c: "sma_50 (calculate_indicators data) = replicate (length data) NaN" if "length data < 50"
    using sma_50_short[OF that] rolling_lengths(6) by (rule all_NaN_replicate)
  have d: "ema_12 (calculate_indicators data) ! 0 = Fin (close (data ! 0))"
    "ema_26 (calculate_indicators data) ! 0 = Fin (close (data ! 0))"
    "macd (calculate_indicators data) ! 0 = Fin 0"
    "macd_signal (calculate_indicators data) ! 0 = Fin 0"
    "macd_histogram (calculate_indicators data) ! 0 = Fin 0"
    if "0 < length data"
    using that first_rows[of data] by simp_all
  show ?thesis
    unfolding Let_def
    using a b c d ema_defined[of data] ema_lengths[of data] by blast
qed

theorem indicators_on_short_series_witness:
  "length (flat_bars 13) = 13
   \<and> rsi (calculate_indicators (flat_bars 13)) = replicate 13 NaN
   \<and> bb_upper (calculate_indicators (flat_bars 13)) = replicate 13 NaN
   \<and> sma_20 (calculate_indicators (flat_bars 13)) = replicate 13 NaN
   \<and> sma_50 (calculate_indicators (flat_bars 13)) = replicate 13 NaN
   \<and> volume_sma (calculate_indicators (flat_bars 13)) = replicate 13 NaN
   \<and> length (ema_12 (calculate_indicators (flat_bars 13))) = 13
   \<and> NaN \<notin> set (ema_12 (calculate_indicators (flat_bars 13)))
   \<and> ema_12 (calculate_indicators (flat_bars 13)) ! 0 = Fin 100
   \<and> macd (calculate_indicators (flat_bars 13)) ! 0 = Fin 0"
proof -
  have n: "length (flat_bars 13) = 13" by (simp add: flat_bars_def)
  have c: "close (flat_bars 13 ! 0) = 100"
    by (simp add: flat_bars_def bar_at_def del: upt_Suc upt_rec_numeral)
  from indicators_on_short_series[of "flat_bars 13"] show ?thesis
    unfolding Let_def n c using n by simp
qed

text \<open>
  Claim C5 as stated fails for the exponentially weighted indicators: on a series of a
  single bar (shorter than the spans 12, 26 and 9) ema_12 and ema_26 hold the close and
  the three MACD columns hold 0, not the undefined value.
\<close>

theorem ema_undefined_counterexample:
  "length (flat_bars 1) < 9
   \<and> ema_12 (calculate_indicators (flat_bars 1)) = [Fin 100]
   \<and> ema_26 (calculate_indicators (flat_bars 1)) = [Fin 100]
   \<and> macd (calculate_indicators (flat_bars 1)) = [Fin 0]
   \<and> macd_signal (calculate_indicators (flat_bars 1)) = [Fin 0]
   \<and> macd_histogram (calculate_indicators (flat_bars 1)) = [Fin 0]"
  by (simp add: calculate_indicators_def flat_bars_def bar_at_def ewm_mean_def Let_def)

lemma sum_of_nonneg:
  "\<forall>x\<in>set ws. \<exists>r\<ge>0. x = Fin r \<Longrightarrow> 0 \<le> a \<Longrightarrow> \<exists>s\<ge>0. foldl fadd (Fin a) ws = Fin s"
proof (induction ws arbitrary: a)
  case Nil
  then show ?case by simp
next
  case (Cons w ws)
  then obtain r where r: "0 \<le> r" "w = Fin r" by auto
  with Cons.prems have "0 \<le> a + r" by simp
  moreover from Cons.prems have "\<forall>x\<in>set ws. \<exists>r\<ge>0. x = Fin r" by simp
  ultimately have "\<exists>s\<ge>0. foldl fadd (Fin (a + r)) ws = Fin s"
    by (rule Cons.IH[rotated])
  with r show ?case by simp
qed

lemma np_mean_of_nonneg:
  assumes "ws \<noteq> []" "\<forall>x\<in>set ws. \<exists>r\<ge>0. x = Fin r"
  shows "\<exists>g\<ge>0. np_mean ws = Fin g"
proof -
  from sum_of_nonneg[OF assms(2), of 0] obtain s where s: "0 \<le> s" "foldl fadd (Fin 0) ws = Fin s"
    by auto
  have n: "0 < real (length ws)" using assms(1) by simp
  then have "np_mean ws = Fin (s / real (length ws))"
    by (simp add: np_mean_def s fin_div_def)
  moreover have "0 \<le> s / real (length ws)" using s n by simp
  ultimately show ?thesis by blast
qed

lemma gains_nonneg:
  "\<forall>x\<in>set (where_or_zero (\<lambda>d. fgt d (Fin 0)) (diff xs)). \<exists>r\<ge>0. x = Fin r"
proof
  fix x assume "x \<in> set (where_or_zero (\<lambda>d. fgt d (Fin 0)) (diff xs))"
  then have "x \<in> (\<lambda>d. if fgt d (Fin 0) then d else Fin 0) ` set (diff xs)"
    by (simp add: where_or_zero_def)
  then obtain d where x: "x = (if fgt d (Fin 0) then d else Fin 0)" and d: "d \<in> set (diff xs)"
    by (rule imageE)
  from d have fin: "d \<noteq> PInf" "d \<noteq> NInf"
    by (cases xs; auto simp: diff_def)+
  show "\<exists>r\<ge>0. x = Fin r"
  proof (cases d)
    case (Fin v)
    with x show ?thesis by (cases "0 < v") auto
  next
    case PInf
    with fin show ?thesis by simp
  next
    case NInf
    with fin show ?thesis by simp
  next
    case NaN
    with x show ?thesis by simp
  qed
qed

lemma avg_gain_row:
  assumes "i < length xs" "13 \<le> i"
  shows "\<exists>g\<ge>0. avg_gain xs ! i = Fin g"
proof -
  let ?g = "where_or_zero (\<lambda>d. fgt d (Fin 0)) (diff xs)"
  let ?w = "take 14 (drop (i + 1 - 14) ?g)"
  have l: "length ?g = length xs" by (simp add: where_or_zero_def length_diff)
  have row: "avg_gain xs ! i = np_mean ?w"
    unfolding avg_gain_def using assms l by (simp add: rolling_nth)
  have "?w \<noteq> []" using assms l by simp
  moreover have "\<forall>x\<in>set ?w. \<exists>r\<ge>0. x = Fin r"
    using gains_nonneg[of xs] by (meson in_set_dropD in_set_takeD)
  ultimately show ?thesis
    unfolding row by (rule np_mean_of_nonneg)
qed

lemma avg_loss_early:
  assumes "i < length xs" "i < 13"
  shows "avg_loss xs ! i = NaN"
  unfolding avg_loss_def using assms
  by (simp add: rolling_nth where_or_zero_def length_diff)

lemma rsi_row:
  assumes "i < length data"
  shows "rsi (calculate_indicators data) ! i =
           fsub (Fin 100) (fdiv (Fin 100) (fadd (Fin 1)
             (fdiv (avg_gain (map close data) ! i) (avg_loss (map close data) ! i))))"
  using assms
  by (simp add: calculate_indicators_def Let_def length_avg_gain length_avg_loss)

lemma rsi_zero_loss:
  assumes "i < length data" "avg_loss (map close data) ! i = Fin 0"
  shows "rsi (calculate_indicators data) ! i =
           (if avg_gain (map close data) ! i = Fin 0 then NaN else Fin 100)"
proof -
  have "13 \<le> i"
  proof (rule ccontr)
    assume "\<not> 13 \<le> i"
    then have "avg_loss (map close data) ! i = NaN"
      using assms(1) by (intro avg_loss_early) simp_all
    with assms(2) show False by simp
  qed
  with assms(1) obtain g where g: "0 \<le> g" "avg_gain (map close data) ! i = Fin g"
    using avg_gain_row[of i "map close data"] by auto
  show ?thesis
  proof (cases "g = 0")
    case True
    then show ?thesis
      unfolding rsi_row[OF assms(1)] assms(2) g(2) by (simp add: fin_div_def fsub_def)
  next
    case False
    with g have "0 < g" by simp
    then show ?thesis
      unfolding rsi_row[OF assms(1)] assms(2) g(2) by (simp add: fin_div_def fsub_def)
  qed
qed

text \<open>
  Claim C8, as amended. On a row whose 14-bar window has an average loss of zero, the RSI
  is 100 when the window's average gain is positive (RS is then infinite), and is
  undefined (NaN) when the average gain is zero as well (RS is then 0 / 0), as on a flat
  stretch of prices.
\<close>

theorem rsi_without_losses:
  assumes "i < length data" and "avg_loss (map close data) ! i = Fin 0"
  shows "rsi (calculate_indicators data) ! i =
           (if avg_gain (map close data) ! i = Fin 0 then NaN else Fin 100)"
  using assms by (rule rsi_zero_loss)

lemma rising_closes:
  "map close (rising_bars 14) =
     [100, 101, 102, 103, 104, 105, 106, 107, 108, 109, 110, 111, 112, 113]"
  by (simp add: rising_bars_def bar_at_def upt_rec)

lemma flat_closes:
  "map close (flat_bars 14) =
     [100, 100, 100, 100, 100, 100, 100, 100, 100, 100, 100, 100, 100, 100]"
  by (simp add: flat_bars_def bar_at_def upt_rec)

lemma rising_averages:
  "avg_loss (map close (rising_bars 14)) ! 13 = Fin 0"
  "avg_gain (map close (rising_bars 14)) ! 13 = Fin (13 / 14)"
  unfolding rising_closes
  by (simp_all add: avg_loss_def avg_gain_def rolling_nth diff_def where_or_zero_def
      np_mean_def fin_div_def)

lemma flat_averages:
  "avg_loss (map close (flat_bars 14)) ! 13 = Fin 0"
  "avg_gain (map close (flat_bars 14)) ! 13 = Fin 0"
  unfolding flat_closes
  by (simp_all add: avg_loss_def avg_gain_def rolling_nth diff_def where_or_zero_def
      np_mean_def fin_div_def)

theorem rsi_without_losses_witness:
  "13 < length (rising_bars 14)
   \<and> avg_loss (map close (rising_bars 14)) ! 13 = Fin 0
   \<and> avg_gain (map close (rising_bars 14)) ! 13 = Fin (13 / 14)
   \<and> rsi (calculate_indicators (rising_bars 14)) ! 13 = Fin 100"
proof -
  have n: "13 < length (rising_bars 14)" by (simp add: rising_bars_def)
  from rsi_without_losses[OF n rising_averages(1)]
  have "rsi (calculate_indicators (rising_bars 14)) ! 13 = Fin 100"
    by (simp add: rising_averages(2))
  with n rising_averages show ?thesis by simp
qed

text \<open>
  Claim C8 as stated fails on a flat series: over 14 bars with the same close the average
  loss of the window is zero, and so is the average gain; RS is 0 / 0 and the RSI of the
  row is undefined, not 100.
\<close>

theorem rsi_flat_counterexample:
  "13 < length (flat_bars 14)
   \<and> avg_loss (map close (flat_bars 14)) ! 13 = Fin 0
   \<and> rsi (calculate_indicators (flat_bars 14)) ! 13 = NaN
   \<and> rsi (calculate_indicators (flat_bars 14)) ! 13 \<noteq> Fin 100"
proof -
  have n: "13 < length (flat_bars 14)" by (simp add: flat_bars_def)
  from rsi_zero_loss[OF n flat_averages(1)]
  have "rsi (calculate_indicators (flat_bars 14)) ! 13 = NaN"
    by (simp add: flat_averages(2))
  with n flat_averages(1) show ?thesis by simp
qed

end
